theory Spec2Isabelle
  imports Complex_Main
begin

section \<open>Order construction and typed-data signing of the order-book client\<close>

text \<open>
  The theory embeds \<^verbatim>\<open>packages/order-book/src/requests/order.ts\<close> (class
  \<^verbatim>\<open>OrderRequests\<close>) and \<^verbatim>\<open>packages/signer/src/sign/eip712.ts\<close>
  (\<^verbatim>\<open>signClobAuth\<close>).

  Conventions of the embedding:
  \<^item> a JavaScript \<^verbatim>\<open>number\<close> that carries a price or a size is an exact rational
    (\<^typ>\<open>rat\<close>); a \<^verbatim>\<open>number\<close> that carries a chain id, a fee rate, a timestamp
    or an expiration, and every \<^verbatim>\<open>bigint\<close>, is an \<^typ>\<open>int\<close>. The rounding error of
    IEEE-754 doubles and the exponent notation that \<^verbatim>\<open>Number.prototype.toString\<close>
    switches to from \<open>10\<^sup>2\<^sup>1\<close> on are outside the model;
  \<^item> a \<^verbatim>\<open>Promise\<close> is the outcome it settles with: \<open>Inr v\<close> when it resolves
    with \<open>v\<close>, \<open>Inl e\<close> when it rejects; a \<^verbatim>\<open>throw\<close> is \<open>Inl\<close> as well;
  \<^item> an object literal handed to the external signer is an association list in the order
    the source writes its keys.
\<close>

subsection \<open>Failures\<close>

text \<open>
  \<open>SyntaxError\<close> is what \<^verbatim>\<open>BigInt(string)\<close> throws on a string that is no integer
  literal. \<open>Rejected r\<close> is a rejection of one of the collaborators (market data source,
  account nonce source, wallet signer) with reason \<open>r\<close>. The source defines no error class
  of its own.
\<close>

datatype error = SyntaxError | Rejected string

subsection \<open>Integers and their decimal strings\<close>

text \<open>The decimal digits of a natural number, most significant first.\<close>

fun digits :: "nat \<Rightarrow> string" where
  "digits n =
     (if n < 10 then [char_of (48 + n)]
      else digits (n div 10) @ [char_of (48 + n mod 10)])"

declare digits.simps [simp del]

text \<open>
  \<^verbatim>\<open>toString()\<close> of a bigint, and of an integer-valued number of magnitude below
  \<open>10\<^sup>2\<^sup>1\<close>: a minus sign for a negative value, then the decimal digits. From
  \<open>10\<^sup>2\<^sup>1\<close> on, \<^verbatim>\<open>Number.prototype.toString\<close> prints exponent notation
  (\<^verbatim>\<open>"1e+21"\<close>), which this function does not model.
\<close>

definition toString :: "int \<Rightarrow> string" where
  "toString n = (if n < 0 then CHR ''-'' # digits (nat (- n)) else digits (nat n))"

subsection \<open>The amount calculator\<close>

datatype OrderSide = BUY | SELL

record OrderAmounts =
  amounts_maker :: string
  amounts_taker :: string

text \<open>
  \<^verbatim>\<open>String.prototype.split\<close> with a one-character separator. The result is never
  empty (the empty string gives one empty segment), so the first branch of the
  \<open>case\<close> is never taken.
\<close>

fun split_str :: "char \<Rightarrow> string \<Rightarrow> string list" where
  "split_str sep [] = [[]]"
| "split_str sep (c # cs) =
     (if c = sep then [] # split_str sep cs
      else (case split_str sep cs of
              [] \<Rightarrow> [[c]]
            | s # ss \<Rightarrow> (c # s) # ss))"

text \<open>
  Modelled from the spec: \<^verbatim>\<open>roundTo\<close> of \<^verbatim>\<open>../utils.ts\<close>, which is not among the
  sources. The specification says that price and size are rounded to the given number of
  decimal places "using standard round-half-away-from-zero".
\<close>

definition roundTo :: "rat \<Rightarrow> nat \<Rightarrow> rat" where
  "roundTo x decimals = sgn x * of_int \<lfloor>\<bar>x\<bar> * 10 ^ decimals + 1 / 2\<rfloor> / 10 ^ decimals"

text \<open>
  \<^verbatim>\<open>tickSize.split(".")[1]?.length || 0\<close>: the length of the second segment, and
  \<open>0\<close> when there is none.
\<close>

definition tickDecimals :: "string \<Rightarrow> nat" where
  "tickDecimals tickSize =
     (case split_str CHR ''.'' tickSize of
        _ # seg # _ \<Rightarrow> length seg
      | _ \<Rightarrow> 0)"

definition sizeDecimals :: nat where
  "sizeDecimals = 2"

definition amountDecimals :: "string \<Rightarrow> nat" where
  "amountDecimals tickSize = tickDecimals tickSize + sizeDecimals"

definition roundedPrice :: "rat \<Rightarrow> string \<Rightarrow> rat" where
  "roundedPrice price tickSize = roundTo price (tickDecimals tickSize)"

definition shares :: "rat \<Rightarrow> rat" where
  "shares sz = roundTo sz sizeDecimals"

definition cost :: "rat \<Rightarrow> rat \<Rightarrow> string \<Rightarrow> rat" where
  "cost sz price tickSize =
     roundTo (shares sz * roundedPrice price tickSize) (amountDecimals tickSize)"

text \<open>
  The two \<^verbatim>\<open>Math.floor\<close> results, before \<^verbatim>\<open>toString\<close>. The source multiplies in
  IEEE-754 doubles, and its floor can be one below the floor of the exact product: for
  size \<open>1.13\<close> the double product \<^verbatim>\<open>1.13 * 100\<close> is \<^verbatim>\<open>112.99999999999999\<close> and the
  source returns \<^verbatim>\<open>"112"\<close>, where \<open>sharesFloor\<close> is \<open>113\<close>; for price \<open>0.57\<close>, size
  \<open>1\<close> and tick size \<^verbatim>\<open>"0.01"\<close> the source returns \<^verbatim>\<open>"5699"\<close>, where \<open>costFloor\<close> is
  \<open>5700\<close>. Over the rationals the rounded shares and the rounded cost are multiples of
  the unit they are scaled by, so the floor changes nothing. The theorems below use these
  two functions for which amount goes to which party, for the sign of the amounts, and at
  inputs where the double products are exact (\<open>100 * 0.45\<close>, \<open>45 * 10\<^sup>4\<close> and their
  negatives); a bound that rests on the truncation is not stated over them.
\<close>

definition sharesFloor :: "rat \<Rightarrow> int" where
  "sharesFloor sz = \<lfloor>shares sz * 10 ^ sizeDecimals\<rfloor>"

definition costFloor :: "rat \<Rightarrow> rat \<Rightarrow> string \<Rightarrow> int" where
  "costFloor sz price tickSize =
     \<lfloor>cost sz price tickSize * 10 ^ amountDecimals tickSize\<rfloor>"

definition sharesRaw :: "rat \<Rightarrow> string" where
  "sharesRaw sz = toString (sharesFloor sz)"

definition costRaw :: "rat \<Rightarrow> rat \<Rightarrow> string \<Rightarrow> string" where
  "costRaw sz price tickSize = toString (costFloor sz price tickSize)"

text \<open>
  \<^verbatim>\<open>calculateOrderAmounts\<close>. The method has no \<^verbatim>\<open>throw\<close> and calls nothing that
  throws, so both of its branches return.
\<close>

definition calculateOrderAmounts ::
  "OrderSide \<Rightarrow> rat \<Rightarrow> rat \<Rightarrow> string \<Rightarrow> error + OrderAmounts" where
  "calculateOrderAmounts side sz price tickSize =
     (if side = BUY
      then Inr \<lparr>amounts_maker = costRaw sz price tickSize, amounts_taker = sharesRaw sz\<rparr>
      else Inr \<lparr>amounts_maker = sharesRaw sz, amounts_taker = costRaw sz price tickSize\<rparr>)"

subsection \<open>\<^verbatim>\<open>BigInt(string)\<close>\<close>

text \<open>
  \<^verbatim>\<open>BigInt\<close> applied to a string parses it as a \<^verbatim>\<open>StringIntegerLiteral\<close>: white space
  around it is dropped; the empty string is \<open>0\<close>; a decimal literal may carry a sign; a
  literal with the prefix \<^verbatim>\<open>0x\<close>, \<^verbatim>\<open>0o\<close> or \<^verbatim>\<open>0b\<close> carries none; anything else
  throws a \<^verbatim>\<open>SyntaxError\<close>. A \<^typ>\<open>char\<close> is one byte, so of the white space
  characters of the language the six ASCII ones are recognised.
\<close>

definition isWhiteSpace :: "char \<Rightarrow> bool" where
  "isWhiteSpace c = (of_char c \<in> set [9, 10, 11, 12, 13, 32 :: nat])"

definition trim :: "string \<Rightarrow> string" where
  "trim s = rev (dropWhile isWhiteSpace (rev (dropWhile isWhiteSpace s)))"

definition digitValue :: "char \<Rightarrow> nat option" where
  "digitValue c =
     (let k = (of_char c :: nat) in
      if 48 \<le> k \<and> k \<le> 57 then Some (k - 48)
      else if 97 \<le> k \<and> k \<le> 102 then Some (k - 87)
      else if 65 \<le> k \<and> k \<le> 70 then Some (k - 55)
      else None)"

fun parseDigits :: "nat \<Rightarrow> string \<Rightarrow> nat \<Rightarrow> nat option" where
  "parseDigits radix [] acc = Some acc"
| "parseDigits radix (c # cs) acc =
     (case digitValue c of
        None \<Rightarrow> None
      | Some d \<Rightarrow> if d < radix then parseDigits radix cs (acc * radix + d) else None)"

definition parseNat :: "nat \<Rightarrow> string \<Rightarrow> error + int" where
  "parseNat radix ds =
     (if ds = [] then Inl SyntaxError
      else (case parseDigits radix ds 0 of
              None \<Rightarrow> Inl SyntaxError
            | Some n \<Rightarrow> Inr (int n)))"

definition BigInt :: "string \<Rightarrow> error + int" where
  "BigInt str =
     (case trim str of
        [] \<Rightarrow> Inr 0
      | c # cs \<Rightarrow>
          if c = CHR ''0'' \<and> cs \<noteq> [] \<and> hd cs \<in> set ''xX'' then parseNat 16 (tl cs)
          else if c = CHR ''0'' \<and> cs \<noteq> [] \<and> hd cs \<in> set ''oO'' then parseNat 8 (tl cs)
          else if c = CHR ''0'' \<and> cs \<noteq> [] \<and> hd cs \<in> set ''bB'' then parseNat 2 (tl cs)
          else if c = CHR ''+'' then parseNat 10 cs
          else if c = CHR ''-'' then
            (case parseNat 10 cs of Inl e \<Rightarrow> Inl e | Inr n \<Rightarrow> Inr (- n))
          else parseNat 10 (c # cs))"

text \<open>A non-empty string of decimal digits: the form of a raw on-chain amount or id.\<close>

definition isDecimalDigit :: "char \<Rightarrow> bool" where
  "isDecimalDigit c = (48 \<le> (of_char c :: nat) \<and> (of_char c :: nat) \<le> 57)"

definition isUint :: "string \<Rightarrow> bool" where
  "isUint s = (s \<noteq> [] \<and> list_all isDecimalDigit s)"

subsection \<open>Sequencing of fallible steps\<close>

text \<open>
  \<open>bind_result m f\<close> continues with \<open>f\<close> on the value of \<open>m\<close>, and stops with the
  failure of \<open>m\<close>: what a \<^verbatim>\<open>throw\<close> inside an expression, or an \<^verbatim>\<open>await\<close> of a
  rejected promise, does to the rest of an \<^verbatim>\<open>async\<close> function.
\<close>

definition bind_result :: "error + 'a \<Rightarrow> ('a \<Rightarrow> error + 'b) \<Rightarrow> error + 'b" where
  "bind_result m f = (case m of Inl e \<Rightarrow> Inl e | Inr x \<Rightarrow> f x)"

text \<open>
  \<^verbatim>\<open>Promise.all\<close> of three promises resolves with the three values when all three
  resolve, and rejects with the reason of the promise that rejects first. \<open>t i\<close> is the
  time at which the promise at index \<open>i\<close> settles; of two rejections at the same time the
  one at the lower index is taken.
\<close>

definition sooner :: "nat \<times> error \<Rightarrow> nat \<times> error \<Rightarrow> nat \<times> error" where
  "sooner p q = (if fst q < fst p then q else p)"

fun Promise_all3 ::
  "(nat \<Rightarrow> nat) \<Rightarrow> error + 'a \<Rightarrow> error + 'b \<Rightarrow> error + 'c \<Rightarrow> error + 'a \<times> 'b \<times> 'c" where
  "Promise_all3 t (Inr x) (Inr y) (Inr z) = Inr (x, y, z)"
| "Promise_all3 t (Inl a) (Inr y) (Inr z) = Inl a"
| "Promise_all3 t (Inr x) (Inl b) (Inr z) = Inl b"
| "Promise_all3 t (Inr x) (Inr y) (Inl c) = Inl c"
| "Promise_all3 t (Inl a) (Inl b) (Inr z) = Inl (snd (sooner (t 0, a) (t 1, b)))"
| "Promise_all3 t (Inl a) (Inr y) (Inl c) = Inl (snd (sooner (t 0, a) (t 2, c)))"
| "Promise_all3 t (Inr x) (Inl b) (Inl c) = Inl (snd (sooner (t 1, b) (t 2, c)))"
| "Promise_all3 t (Inl a) (Inl b) (Inl c) =
     Inl (snd (sooner (sooner (t 0, a) (t 1, b)) (t 2, c)))"

subsection \<open>Orders, typed data and the collaborators\<close>

datatype SignatureType = Eoa | PolyProxy | PolyGnosisSafe

record Order =
  salt :: string
  maker :: string
  signer :: string
  taker :: string
  tokenId :: string
  makerAmount :: string
  takerAmount :: string
  expiration :: string
  nonce :: string
  feeRateBps :: string
  side :: OrderSide
  signatureType :: SignatureType

record SignedOrder = Order +
  signature :: string

text \<open>
  \<^verbatim>\<open>CreateOrderParams\<close>. \<open>p_taker\<close> is a \<^verbatim>\<open>Hex\<close> string or the string
  \<^verbatim>\<open>"public"\<close>.
\<close>

record CreateOrderParams =
  p_tokenId :: string
  p_price :: rat
  p_side :: OrderSide
  p_size :: rat
  p_expiration :: int
  p_taker :: string

text \<open>
  A value inside the object handed to the signer: a string, a \<^verbatim>\<open>number\<close>, or a
  \<^verbatim>\<open>bigint\<close>.
\<close>

datatype jsvalue = Str string | Num int | Big int

record TypedData =
  primaryType :: string
  domain :: "(string \<times> jsvalue) list"
  types :: "(string \<times> (string \<times> string) list) list"
  message :: "(string \<times> jsvalue) list"

text \<open>
  The wallet client: the account, the chain id (\<^verbatim>\<open>chain.id\<close>), and the external signer
  \<^verbatim>\<open>signTypedData\<close>. Of the account, its address and its optional method
  \<^verbatim>\<open>getNonce\<close>: \<open>account_getNonce\<close> is \<open>None\<close> when the account has no such method,
  and \<open>Some outcome\<close> when it has one and a call of it settles with \<open>outcome\<close>.
\<close>

record Account =
  address :: string
  account_getNonce :: "(error + int) option"

record Wallet =
  account :: Account
  chain_id :: int
  signTypedData :: "TypedData \<Rightarrow> error + string"

text \<open>
  The market data source of \<^verbatim>\<open>./market.ts\<close>. Its two lookups are not among the
  sources, so they are parameters, typed as the specification gives them:
  \<^verbatim>\<open>getTickSize(tokenId) -> decimal string\<close> and
  \<^verbatim>\<open>getFeeRateBps(tokenId) -> integer\<close>. Each is the outcome of the lookup for the
  given token.
\<close>

record MarketRequests =
  getTickSize :: "string \<Rightarrow> error + string"
  getFeeRateBps :: "string \<Rightarrow> error + int"

record OrderRequests =
  client_wallet :: Wallet
  market :: MarketRequests

text \<open>
  What the class reads from outside itself: the two registry entries of
  \<^verbatim>\<open>../contract.ts\<close> (not among the sources, so they are parameters), the values
  that \<^verbatim>\<open>Math.random()\<close> and \<^verbatim>\<open>Date.now()\<close> return, and the times at which the
  three reads of \<^verbatim>\<open>createOrder\<close> settle.
\<close>

record ContractConfig =
  negRiskExchange :: string

record World =
  POLYGON_CONTRACTS :: ContractConfig
  POLYGON_AMOY_CONTRACTS :: ContractConfig
  Math_random :: rat
  Date_now :: int
  settledAt :: "nat \<Rightarrow> nat"

definition zeroAddress :: string where
  "zeroAddress = ''0x0000000000000000000000000000000000000000''"

subsection \<open>\<^verbatim>\<open>order.ts\<close>\<close>

definition getContractForChain :: "World \<Rightarrow> int \<Rightarrow> ContractConfig" where
  "getContractForChain w chainId =
     (if chainId = 137 then POLYGON_CONTRACTS w else POLYGON_AMOY_CONTRACTS w)"

fun signatureTypeToNumber :: "SignatureType \<Rightarrow> int" where
  "signatureTypeToNumber Eoa = 0"
| "signatureTypeToNumber PolyProxy = 1"
| "signatureTypeToNumber PolyGnosisSafe = 2"

definition orderSideToNumber :: "OrderSide \<Rightarrow> int" where
  "orderSideToNumber sd = (if sd = BUY then 0 else 1)"

definition orderTypes :: "(string \<times> (string \<times> string) list) list" where
  "orderTypes =
     [(''EIP712Domain'',
         [(''name'', ''string''),
          (''version'', ''string''),
          (''chainId'', ''uint256''),
          (''verifyingContract'', ''address'')]),
      (''Order'',
         [(''salt'', ''uint256''),
          (''maker'', ''address''),
          (''signer'', ''address''),
          (''taker'', ''address''),
          (''tokenId'', ''uint256''),
          (''makerAmount'', ''uint256''),
          (''takerAmount'', ''uint256''),
          (''expiration'', ''uint256''),
          (''nonce'', ''uint256''),
          (''feeRateBps'', ''uint256''),
          (''side'', ''uint8''),
          (''signatureType'', ''uint8'')])]"

text \<open>
  The \<^verbatim>\<open>message\<close> object of \<^verbatim>\<open>signOrder\<close>, its keys in the order of the source. Each
  \<^verbatim>\<open>BigInt(...)\<close> may throw, which ends the call before the signer is reached.
\<close>

definition orderMessage :: "Order \<Rightarrow> error + (string \<times> jsvalue) list" where
  "orderMessage order =
     bind_result (BigInt (salt order)) (\<lambda>salt'.
     bind_result (BigInt (tokenId order)) (\<lambda>tokenId'.
     bind_result (BigInt (nonce order)) (\<lambda>nonce'.
     bind_result (BigInt (feeRateBps order)) (\<lambda>feeRateBps'.
     bind_result (BigInt (expiration order)) (\<lambda>expiration'.
     bind_result (BigInt (makerAmount order)) (\<lambda>makerAmount'.
     bind_result (BigInt (takerAmount order)) (\<lambda>takerAmount'.
       Inr [(''salt'', Big salt'),
            (''signer'', Str (signer order)),
            (''maker'', Str (maker order)),
            (''taker'', Str (taker order)),
            (''tokenId'', Big tokenId'),
            (''nonce'', Big nonce'),
            (''feeRateBps'', Big feeRateBps'),
            (''expiration'', Big expiration'),
            (''side'', Num (orderSideToNumber (side order))),
            (''signatureType'', Num (signatureTypeToNumber (signatureType order))),
            (''makerAmount'', Big makerAmount'),
            (''takerAmount'', Big takerAmount')])))))))"

text \<open>The argument that \<^verbatim>\<open>signOrder\<close> builds for \<^verbatim>\<open>wallet.signTypedData\<close>.\<close>

definition orderTypedData :: "World \<Rightarrow> OrderRequests \<Rightarrow> Order \<Rightarrow> error + TypedData" where
  "orderTypedData w this order =
     (let wallet = client_wallet this;
          contract = getContractForChain w (chain_id wallet)
      in bind_result (orderMessage order) (\<lambda>msg.
           Inr \<lparr>primaryType = ''Order'',
                domain = [(''name'', Str ''Polymarket CTF Exchange''),
                          (''version'', Str ''1''),
                          (''chainId'', Big (chain_id wallet)),
                          (''verifyingContract'', Str (negRiskExchange contract))],
                types = orderTypes,
                message = msg\<rparr>))"

definition signOrder :: "World \<Rightarrow> OrderRequests \<Rightarrow> Order \<Rightarrow> error + string" where
  "signOrder w this order =
     bind_result (orderTypedData w this order) (signTypedData (client_wallet this))"

definition getNonce :: "OrderRequests \<Rightarrow> error + int" where
  "getNonce this =
     (case account_getNonce (account (client_wallet this)) of
        Some outcome \<Rightarrow> outcome
      | None \<Rightarrow> Inr 0)"

text \<open>
  \<^verbatim>\<open>BigInt(Math.round(Math.random() * Date.now()))\<close>; \<^verbatim>\<open>Math.round\<close> rounds a half
  upwards.
\<close>

definition generateSalt :: "World \<Rightarrow> int" where
  "generateSalt w = \<lfloor>Math_random w * of_int (Date_now w) + 1 / 2\<rfloor>"

text \<open>The object literal \<^verbatim>\<open>order\<close> of \<^verbatim>\<open>createOrder\<close>, before it is signed.\<close>

definition unsignedOrder ::
  "World \<Rightarrow> OrderRequests \<Rightarrow> CreateOrderParams \<Rightarrow> OrderAmounts \<Rightarrow> int \<Rightarrow> int \<Rightarrow> Order" where
  "unsignedOrder w this params amounts feeRateBps' nonce' =
     (let addr = address (account (client_wallet this))
      in \<lparr>salt = toString (generateSalt w),
          maker = addr,
          signer = addr,
          taker = (if p_taker params = ''public'' then zeroAddress else p_taker params),
          tokenId = p_tokenId params,
          makerAmount = amounts_maker amounts,
          takerAmount = amounts_taker amounts,
          expiration = toString (p_expiration params),
          nonce = toString nonce',
          feeRateBps = toString feeRateBps',
          side = p_side params,
          signatureType = Eoa\<rparr>)"

definition createOrder ::
  "World \<Rightarrow> OrderRequests \<Rightarrow> CreateOrderParams \<Rightarrow> error + SignedOrder" where
  "createOrder w this params =
     bind_result
       (Promise_all3 (settledAt w)
          (getTickSize (market this) (p_tokenId params))
          (getFeeRateBps (market this) (p_tokenId params))
          (getNonce this))
       (\<lambda>(tickSize, feeRateBps', nonce').
          bind_result
            (calculateOrderAmounts (p_side params) (p_size params) (p_price params) tickSize)
            (\<lambda>amounts.
               let order = unsignedOrder w this params amounts feeRateBps' nonce'
               in bind_result (signOrder w this order) (\<lambda>signature'.
                    Inr (Order.extend order (SignedOrder.fields signature')))))"

subsection \<open>\<^verbatim>\<open>eip712.ts\<close>\<close>

text \<open>The argument that \<^verbatim>\<open>signClobAuth\<close> builds for \<^verbatim>\<open>signer.signTypedData\<close>.\<close>

definition clobAuthTypedData :: "Wallet \<Rightarrow> int \<Rightarrow> int \<Rightarrow> TypedData" where
  "clobAuthTypedData signer' timestamp nonce' =
     \<lparr>primaryType = ''ClobAuth'',
      domain = [(''name'', Str ''ClobAuthDomain''),
                (''version'', Str ''1''),
                (''chainId'', Num (chain_id signer'))],
      types = [(''ClobAuth'',
                  [(''address'', ''address''),
                   (''timestamp'', ''string''),
                   (''nonce'', ''uint256''),
                   (''message'', ''string'')])],
      message = [(''address'', Str (address (account signer'))),
                 (''timestamp'', Str (toString timestamp)),
                 (''nonce'', Big nonce'),
                 (''message'', Str ''This message attests that I control the given wallet'')]\<rparr>"

definition signClobAuth :: "Wallet \<Rightarrow> int \<Rightarrow> int \<Rightarrow> error + string" where
  "signClobAuth signer' timestamp nonce' =
     signTypedData signer' (clobAuthTypedData signer' timestamp nonce')"

subsection \<open>A concrete setting\<close>

text \<open>
  A wallet on chain 137 whose account has no \<^verbatim>\<open>getNonce\<close> and whose signer accepts, a
  market with tick size \<^verbatim>\<open>"0.01"\<close> and fee rate \<open>0\<close>, two registry entries, and an
  order intent: buy \<open>100\<close> at \<open>0.45\<close>, public taker.
\<close>

definition example_wallet :: Wallet where
  "example_wallet =
     \<lparr>account = \<lparr>address = ''0x00000000000000000000000000000000000000aa'',
                  account_getNonce = None\<rparr>,
      chain_id = 137,
      signTypedData = (\<lambda>td. Inr ''0xsigned'')\<rparr>"

definition example_requests :: OrderRequests where
  "example_requests =
     \<lparr>client_wallet = example_wallet,
      market = \<lparr>getTickSize = (\<lambda>tokenId'. Inr ''0.01''),
                getFeeRateBps = (\<lambda>tokenId'. Inr 0)\<rparr>\<rparr>"

definition example_world :: World where
  "example_world =
     \<lparr>POLYGON_CONTRACTS = \<lparr>negRiskExchange = ''0x00000000000000000000000000000000000000c1''\<rparr>,
      POLYGON_AMOY_CONTRACTS =
        \<lparr>negRiskExchange = ''0x00000000000000000000000000000000000000c2''\<rparr>,
      Math_random = 1 / 2,
      Date_now = 1000,
      settledAt = (\<lambda>i. i)\<rparr>"

definition example_params :: CreateOrderParams where
  "example_params =
     \<lparr>p_tokenId = ''123'',
      p_price = 45 / 100,
      p_side = BUY,
      p_size = 100,
      p_expiration = 0,
      p_taker = ''public''\<rparr>"

definition example_order :: Order where
  "example_order =
     \<lparr>salt = ''500'',
      maker = ''0x00000000000000000000000000000000000000aa'',
      signer = ''0x00000000000000000000000000000000000000aa'',
      taker = zeroAddress,
      tokenId = ''123'',
      makerAmount = ''450000'',
      takerAmount = ''10000'',
      expiration = ''0'',
      nonce = ''0'',
      feeRateBps = ''0'',
      side = BUY,
      signatureType = Eoa\<rparr>"

definition example_typedData :: TypedData where
  "example_typedData =
     \<lparr>primaryType = ''Order'',
      domain = [(''name'', Str ''Polymarket CTF Exchange''),
                (''version'', Str ''1''),
                (''chainId'', Big 137),
                (''verifyingContract'', Str ''0x00000000000000000000000000000000000000c1'')],
      types = orderTypes,
      message = [(''salt'', Big 500),
                 (''signer'', Str ''0x00000000000000000000000000000000000000aa''),
                 (''maker'', Str ''0x00000000000000000000000000000000000000aa''),
                 (''taker'', Str zeroAddress),
                 (''tokenId'', Big 123),
                 (''nonce'', Big 0),
                 (''feeRateBps'', Big 0),
                 (''expiration'', Big 0),
                 (''side'', Num 0),
                 (''signatureType'', Num 0),
                 (''makerAmount'', Big 450000),
                 (''takerAmount'', Big 10000)]\<rparr>"

text \<open>The same client when the tick size lookup rejects.\<close>

definition example_requests_no_tick :: OrderRequests where
  "example_requests_no_tick =
     \<lparr>client_wallet = example_wallet,
      market = \<lparr>getTickSize = (\<lambda>tokenId'. Inl (Rejected ''tick size unavailable'')),
                getFeeRateBps = (\<lambda>tokenId'. Inr 0)\<rparr>\<rparr>"

text \<open>The same client when the account provides \<^verbatim>\<open>getNonce\<close> and it resolves with \<open>7\<close>.\<close>

definition example_requests_nonce :: OrderRequests where
  "example_requests_nonce =
     \<lparr>client_wallet =
        \<lparr>account = \<lparr>address = ''0x00000000000000000000000000000000000000aa'',
                     account_getNonce = Some (Inr 7)\<rparr>,
         chain_id = 137,
         signTypedData = (\<lambda>td. Inr ''0xsigned'')\<rparr>,
      market = \<lparr>getTickSize = (\<lambda>tokenId'. Inr ''0.01''),
                getFeeRateBps = (\<lambda>tokenId'. Inr 0)\<rparr>\<rparr>"

text \<open>
  The order and the typed data of the same setting when the caller's price is \<open>-0.45\<close>.
\<close>

definition example_negative_order :: Order where
  "example_negative_order =
     \<lparr>salt = ''500'',
      maker = ''0x00000000000000000000000000000000000000aa'',
      signer = ''0x00000000000000000000000000000000000000aa'',
      taker = zeroAddress,
      tokenId = ''123'',
      makerAmount = ''-450000'',
      takerAmount = ''10000'',
      expiration = ''0'',
      nonce = ''0'',
      feeRateBps = ''0'',
      side = BUY,
      signatureType = Eoa\<rparr>"

definition example_negative_typedData :: TypedData where
  "example_negative_typedData =
     \<lparr>primaryType = ''Order'',
      domain = [(''name'', Str ''Polymarket CTF Exchange''),
                (''version'', Str ''1''),
                (''chainId'', Big 137),
                (''verifyingContract'', Str ''0x00000000000000000000000000000000000000c1'')],
      types = orderTypes,
      message = [(''salt'', Big 500),
                 (''signer'', Str ''0x00000000000000000000000000000000000000aa''),
                 (''maker'', Str ''0x00000000000000000000000000000000000000aa''),
                 (''taker'', Str zeroAddress),
                 (''tokenId'', Big 123),
                 (''nonce'', Big 0),
                 (''feeRateBps'', Big 0),
                 (''expiration'', Big 0),
                 (''side'', Num 0),
                 (''signatureType'', Num 0),
                 (''makerAmount'', Big (- 450000)),
                 (''takerAmount'', Big 10000)]\<rparr>"

text \<open>The same client when the account's \<^verbatim>\<open>getNonce\<close> rejects.\<close>

definition example_requests_nonce_rejects :: OrderRequests where
  "example_requests_nonce_rejects =
     \<lparr>client_wallet =
        \<lparr>account = \<lparr>address = ''0x00000000000000000000000000000000000000aa'',
                     account_getNonce = Some (Inl (Rejected ''nonce unavailable''))\<rparr>,
         chain_id = 137,
         signTypedData = (\<lambda>td. Inr ''0xsigned'')\<rparr>,
      market = \<lparr>getTickSize = (\<lambda>tokenId'. Inr ''0.01''),
                getFeeRateBps = (\<lambda>tokenId'. Inr 0)\<rparr>\<rparr>"

text \<open>The same client when the account's \<^verbatim>\<open>getNonce\<close> resolves with \<open>-5\<close>.\<close>

definition example_requests_nonce_negative :: OrderRequests where
  "example_requests_nonce_negative =
     \<lparr>client_wallet =
        \<lparr>account = \<lparr>address = ''0x00000000000000000000000000000000000000aa'',
                     account_getNonce = Some (Inr (- 5))\<rparr>,
         chain_id = 137,
         signTypedData = (\<lambda>td. Inr ''0xsigned'')\<rparr>,
      market = \<lparr>getTickSize = (\<lambda>tokenId'. Inr ''0.01''),
                getFeeRateBps = (\<lambda>tokenId'. Inr 0)\<rparr>\<rparr>"

section \<open>Lemmas\<close>

subsection \<open>Decimal strings and \<^verbatim>\<open>BigInt\<close>\<close>

lemma digit_chars:
  "char_of (48::nat) = CHR ''0''" "char_of (49::nat) = CHR ''1''" "char_of (50::nat) = CHR ''2''"
  "char_of (51::nat) = CHR ''3''" "char_of (52::nat) = CHR ''4''" "char_of (53::nat) = CHR ''5''"
  "char_of (54::nat) = CHR ''6''" "char_of (55::nat) = CHR ''7''" "char_of (56::nat) = CHR ''8''"
  "char_of (57::nat) = CHR ''9''"
  by code_simp+

lemma digits_small: "n < 10 \<Longrightarrow> digits n = [char_of (48 + n)]"
  by (simp add: digits.simps)

lemma digits_big: "10 \<le> n \<Longrightarrow> digits n = digits (n div 10) @ [char_of (48 + n mod 10)]"
  by (subst digits.simps) simp

lemma of_char_digit: "d < 10 \<Longrightarrow> (of_char (char_of (48 + d :: nat)) :: nat) = 48 + d"
  by (simp add: of_char_of)

lemma digitValue_digit: "d < 10 \<Longrightarrow> digitValue (char_of (48 + d :: nat)) = Some d"
  by (simp add: digitValue_def of_char_digit)

lemma isDecimalDigit_digit: "d < 10 \<Longrightarrow> isDecimalDigit (char_of (48 + d :: nat))"
  by (simp add: isDecimalDigit_def of_char_digit)

lemma digits_nonempty: "digits n \<noteq> []"
  by (cases "n < 10") (simp_all add: digits_small digits_big)

lemma digits_all_decimal: "list_all isDecimalDigit (digits n)"
proof (induction n rule: digits.induct)
  case (1 n)
  show ?case
  proof (cases "n < 10")
    case True
    then show ?thesis by (simp add: digits_small isDecimalDigit_digit)
  next
    case False
    with 1 show ?thesis by (simp add: digits_big isDecimalDigit_digit)
  qed
qed

lemma isUint_digits: "isUint (digits n)"
  by (simp add: isUint_def digits_nonempty digits_all_decimal)

lemma parseDigits_append:
  "parseDigits r (xs @ ys) acc =
     (case parseDigits r xs acc of None \<Rightarrow> None | Some a \<Rightarrow> parseDigits r ys a)"
  by (induction xs arbitrary: acc) (simp_all split: option.splits)

lemma parseDigits_digits: "parseDigits 10 (digits n) 0 = Some n"
proof (induction n rule: digits.induct)
  case (1 n)
  show ?case
  proof (cases "n < 10")
    case True
    then show ?thesis by (simp add: digits_small digitValue_digit)
  next
    case False
    with 1 have "parseDigits 10 (digits (n div 10)) 0 = Some (n div 10)" by simp
    with False show ?thesis
      by (simp add: digits_big parseDigits_append digitValue_digit)
  qed
qed

lemma parseNat_digits: "parseNat 10 (digits n) = Inr (int n)"
  by (simp add: parseNat_def digits_nonempty parseDigits_digits)

lemma decimal_not_space: "isDecimalDigit c \<Longrightarrow> \<not> isWhiteSpace c"
  by (auto simp: isDecimalDigit_def isWhiteSpace_def)

lemma decimal_not_sign: "isDecimalDigit c \<Longrightarrow> c \<noteq> CHR ''+'' \<and> c \<noteq> CHR ''-''"
  by (auto simp: isDecimalDigit_def)

lemma decimal_not_prefix: "isDecimalDigit c \<Longrightarrow> c \<notin> set ''xXoObB''"
  by (auto simp: isDecimalDigit_def)

lemma minus_not_space: "\<not> isWhiteSpace CHR ''-''"
  by (simp add: isWhiteSpace_def)

lemma trim_id:
  assumes "s \<noteq> []" "\<not> isWhiteSpace (hd s)" "\<not> isWhiteSpace (last s)"
  shows "trim s = s"
proof -
  from assms have "dropWhile isWhiteSpace s = s"
    by (cases s) simp_all
  moreover from assms have "dropWhile isWhiteSpace (rev s) = rev s"
    by (cases "rev s") (simp_all add: hd_rev [symmetric])
  ultimately show ?thesis by (simp add: trim_def)
qed

lemma parseDigits_decimal:
  "list_all isDecimalDigit s \<Longrightarrow> \<exists>n. parseDigits 10 s acc = Some n"
proof (induction s arbitrary: acc)
  case Nil
  then show ?case by simp
next
  case (Cons c cs)
  then have c: "isDecimalDigit c" and cs: "list_all isDecimalDigit cs" by simp_all
  from c have "digitValue c = Some (of_char c - 48)" "(of_char c :: nat) - 48 < 10"
    by (auto simp: digitValue_def isDecimalDigit_def)
  with Cons.IH [OF cs] show ?case by simp
qed

lemma BigInt_uint: 
  assumes "isUint s"
  shows "BigInt s = parseNat 10 s"
proof -
  from assms obtain c cs where s: "s = c # cs" and c: "isDecimalDigit c"
    and cs: "list_all isDecimalDigit cs"
    by (cases s) (auto simp: isUint_def)
  from assms have "isDecimalDigit (last s)"
    by (auto simp: isUint_def list_all_iff)
  with s c have t: "trim (c # cs) = c # cs"
    using trim_id [of s] by (simp add: decimal_not_space)
  have "cs \<noteq> [] \<Longrightarrow> isDecimalDigit (hd cs)"
    using cs by (cases cs) simp_all
  then have p: "cs \<noteq> [] \<Longrightarrow> hd cs \<notin> set ''xXoObB''"
    by (rule decimal_not_prefix)
  from c have "c \<noteq> CHR ''+''" "c \<noteq> CHR ''-''"
    by (simp_all add: decimal_not_sign)
  with p t show ?thesis
    by (auto simp: BigInt_def s)
qed

lemma BigInt_uint_value:
  assumes "isUint s"
  shows "\<exists>n. 0 \<le> n \<and> BigInt s = Inr n"
proof -
  from assms have "s \<noteq> []" "list_all isDecimalDigit s" by (simp_all add: isUint_def)
  moreover from this obtain k where "parseDigits 10 s 0 = Some k"
    using parseDigits_decimal by blast
  ultimately have "parseNat 10 s = Inr (int k)" by (simp add: parseNat_def)
  with assms show ?thesis by (simp add: BigInt_uint)
qed

lemma BigInt_digits: "BigInt (digits n) = Inr (int n)"
  by (simp add: BigInt_uint isUint_digits parseNat_digits)

lemma BigInt_minus_digits: "BigInt (CHR ''-'' # digits n) = Inr (- int n)"
proof -
  have "isDecimalDigit (last (digits n))"
    using digits_all_decimal [of n] digits_nonempty [of n] by (simp add: list_all_iff)
  then have "trim (CHR ''-'' # digits n) = CHR ''-'' # digits n"
    using trim_id [of "CHR ''-'' # digits n"]
    by (simp add: minus_not_space digits_nonempty decimal_not_space)
  then show ?thesis
    by (simp add: BigInt_def parseNat_digits)
qed

lemma BigInt_toString: "BigInt (toString n) = Inr n"
  by (simp add: toString_def BigInt_digits BigInt_minus_digits)

subsection \<open>Rounding and the raw amounts\<close>

lemma roundTo_nonneg: "0 \<le> x \<Longrightarrow> 0 \<le> roundTo x d"
proof -
  assume x: "0 \<le> x"
  then have "0 \<le> \<bar>x\<bar> * 10 ^ d + 1 / 2" by simp
  then have "0 \<le> \<lfloor>\<bar>x\<bar> * 10 ^ d + 1 / 2\<rfloor>" by (simp only: zero_le_floor)
  with x show ?thesis by (simp add: roundTo_def sgn_if)
qed

lemma roundTo_nonpos: "x \<le> 0 \<Longrightarrow> roundTo x d \<le> 0"
proof -
  assume x: "x \<le> 0"
  have "0 \<le> \<bar>x\<bar> * 10 ^ d + 1 / 2" by simp
  then have "0 \<le> \<lfloor>\<bar>x\<bar> * 10 ^ d + 1 / 2\<rfloor>" by (simp only: zero_le_floor)
  then have "0 \<le> (of_int \<lfloor>\<bar>x\<bar> * 10 ^ d + 1 / 2\<rfloor> :: rat) / 10 ^ d" by simp
  moreover from x have "sgn x \<le> 0" by (simp add: sgn_if)
  ultimately have "sgn x * (of_int \<lfloor>\<bar>x\<bar> * 10 ^ d + 1 / 2\<rfloor> / 10 ^ d) \<le> 0"
    by (rule mult_nonpos_nonneg [rotated])
  then show ?thesis by (simp add: roundTo_def)
qed

lemma floor_scaled_nonpos: "(x::rat) \<le> 0 \<Longrightarrow> \<lfloor>x * 10 ^ d\<rfloor> \<le> 0"
proof -
  assume "x \<le> 0"
  then have "x * 10 ^ d \<le> 0" by (simp add: mult_le_0_iff)
  then show ?thesis by (simp only: floor_le_zero)
qed

lemma sharesFloor_nonpos: "sz \<le> 0 \<Longrightarrow> sharesFloor sz \<le> 0"
  unfolding sharesFloor_def by (rule floor_scaled_nonpos) (simp add: shares_def roundTo_nonpos)

lemma costFloor_nonpos:
  assumes "price \<le> 0" and "0 \<le> sz"
  shows "costFloor sz price tickSize \<le> 0"
proof -
  from assms have "0 \<le> shares sz" "roundedPrice price tickSize \<le> 0"
    by (simp_all add: shares_def roundedPrice_def roundTo_nonneg roundTo_nonpos)
  then have "shares sz * roundedPrice price tickSize \<le> 0"
    by (rule mult_nonneg_nonpos)
  then have "cost sz price tickSize \<le> 0"
    by (simp add: cost_def roundTo_nonpos)
  then show ?thesis
    unfolding costFloor_def by (rule floor_scaled_nonpos)
qed

lemma split_str_no_separator: "sep \<notin> set s \<Longrightarrow> split_str sep s = [s]"
  by (induction s) auto

lemma tickDecimals_no_dot: "CHR ''.'' \<notin> set tickSize \<Longrightarrow> tickDecimals tickSize = 0"
  by (simp add: tickDecimals_def split_str_no_separator)

lemma example_tickDecimals: "tickDecimals ''0.01'' = 2"
  by (simp add: tickDecimals_def)

lemma example_floors:
  "sharesFloor 100 = 10000" "costFloor 100 (45 / 100) ''0.01'' = 450000"
  "costFloor 100 (- 45 / 100) ''0.01'' = - 450000"
  "sharesFloor (- 1) = - 100" "costFloor (- 1) (45 / 100) ''0.01'' = - 4500"
  "costFloor 100 (45 / 100) ''abc'' = 0"
  by code_simp+

lemma example_rounded:
  "amountDecimals ''0.01'' = 4" "roundedPrice (45 / 100) ''0.01'' = 45 / 100"
  "shares 100 = 100" "cost 100 (45 / 100) ''0.01'' = 45"
  by code_simp+

lemma example_strings:
  "toString 10000 = ''10000''" "toString 450000 = ''450000''"
  "toString (- 450000) = ''-450000''" "toString (- 100) = ''-100''" "toString (- 4500) = ''-4500''"
  "toString 0 = ''0''"
  by (simp_all add: toString_def digits_small digits_big digit_chars)

subsection \<open>Sequencing, \<^verbatim>\<open>Promise.all\<close> and the signing path\<close>

lemma bind_result_Inl: "bind_result (Inl e) f = Inl e"
  by (simp add: bind_result_def)

lemma bind_result_Inr: "bind_result (Inr x) f = f x"
  by (simp add: bind_result_def)

lemma bind_result_eq_Inr: "bind_result m f = Inr y \<longleftrightarrow> (\<exists>x. m = Inr x \<and> f x = Inr y)"
  by (cases m) (simp_all add: bind_result_def)

lemma Promise_all3_eq_Inr:
  "Promise_all3 t a b c = Inr v \<longleftrightarrow> (\<exists>x y z. a = Inr x \<and> b = Inr y \<and> c = Inr z \<and> v = (x, y, z))"
  by (cases a; cases b; cases c) auto

lemma Promise_all3_rejects:
  assumes "isl a \<or> isl b \<or> isl c"
  shows "\<exists>e. Promise_all3 t a b c = Inl e \<and> (a = Inl e \<or> b = Inl e \<or> c = Inl e)"
  using assms by (cases a; cases b; cases c) (auto simp: sooner_def)

lemma orderMessage_eq_Inr:
  "orderMessage order = Inr msg \<longleftrightarrow>
     (\<exists>salt' tokenId' nonce' feeRateBps' expiration' makerAmount' takerAmount'.
        BigInt (salt order) = Inr salt' \<and> BigInt (tokenId order) = Inr tokenId' \<and>
        BigInt (nonce order) = Inr nonce' \<and> BigInt (feeRateBps order) = Inr feeRateBps' \<and>
        BigInt (expiration order) = Inr expiration' \<and>
        BigInt (makerAmount order) = Inr makerAmount' \<and>
        BigInt (takerAmount order) = Inr takerAmount' \<and>
        msg = [(''salt'', Big salt'),
               (''signer'', Str (signer order)),
               (''maker'', Str (maker order)),
               (''taker'', Str (taker order)),
               (''tokenId'', Big tokenId'),
               (''nonce'', Big nonce'),
               (''feeRateBps'', Big feeRateBps'),
               (''expiration'', Big expiration'),
               (''side'', Num (orderSideToNumber (side order))),
               (''signatureType'', Num (signatureTypeToNumber (signatureType order))),
               (''makerAmount'', Big makerAmount'),
               (''takerAmount'', Big takerAmount')])"
  unfolding orderMessage_def bind_result_eq_Inr by (simp add: eq_commute [of msg])

lemma orderTypedData_eq_Inr:
  "orderTypedData w this order = Inr td \<longleftrightarrow>
     (\<exists>msg. orderMessage order = Inr msg \<and>
        td = \<lparr>primaryType = ''Order'',
              domain = [(''name'', Str ''Polymarket CTF Exchange''),
                        (''version'', Str ''1''),
                        (''chainId'', Big (chain_id (client_wallet this))),
                        (''verifyingContract'',
                           Str (negRiskExchange
                                  (getContractForChain w (chain_id (client_wallet this)))))],
              types = orderTypes,
              message = msg\<rparr>)"
  unfolding orderTypedData_def Let_def bind_result_eq_Inr by auto

lemma createOrder_eq_Inr:
  "createOrder w this params = Inr so \<longleftrightarrow>
     (\<exists>tickSize feeRateBps' nonce' amounts signature'.
        getTickSize (market this) (p_tokenId params) = Inr tickSize \<and>
        getFeeRateBps (market this) (p_tokenId params) = Inr feeRateBps' \<and>
        getNonce this = Inr nonce' \<and>
        calculateOrderAmounts (p_side params) (p_size params) (p_price params) tickSize
          = Inr amounts \<and>
        signOrder w this (unsignedOrder w this params amounts feeRateBps' nonce')
          = Inr signature' \<and>
        so = Order.extend (unsignedOrder w this params amounts feeRateBps' nonce')
               (SignedOrder.fields signature'))"
  by (auto simp: createOrder_def Let_def bind_result_eq_Inr Promise_all3_eq_Inr)

lemma truncate_extend: "Order.truncate (Order.extend order (SignedOrder.fields sg)) = order"
  by (simp add: Order.truncate_def Order.extend_def)

lemma extend_fields:
  "signatureType (Order.extend order m) = signatureType order"
  "taker (Order.extend order m) = taker order"
  "maker (Order.extend order m) = maker order"
  "signer (Order.extend order m) = signer order"
  "nonce (Order.extend order m) = nonce order"
  by (simp_all add: Order.extend_def)

lemma signature_extend: "signature (Order.extend order (SignedOrder.fields sg)) = sg"
  by (simp add: Order.extend_def SignedOrder.fields_def)

lemma BigInt_uint_nonneg: "BigInt s = Inr n \<Longrightarrow> isUint s \<Longrightarrow> 0 \<le> n"
  using BigInt_uint_value [of s] by auto

lemma orderTypes_Order:
  "map_of orderTypes ''Order'' =
     Some [(''salt'', ''uint256''),
           (''maker'', ''address''),
           (''signer'', ''address''),
           (''taker'', ''address''),
           (''tokenId'', ''uint256''),
           (''makerAmount'', ''uint256''),
           (''takerAmount'', ''uint256''),
           (''expiration'', ''uint256''),
           (''nonce'', ''uint256''),
           (''feeRateBps'', ''uint256''),
           (''side'', ''uint8''),
           (''signatureType'', ''uint8'')]"
  by (simp add: orderTypes_def)

lemma signOrder_typed_data:
  "orderTypedData w this order = Inr td \<Longrightarrow>
   signOrder w this order = signTypedData (client_wallet this) td"
  by (simp add: signOrder_def bind_result_Inr)

lemma orderTypedData_built:
  "orderMessage order = Inr msg \<Longrightarrow> \<exists>td. orderTypedData w this order = Inr td"
  by (simp add: orderTypedData_eq_Inr)

lemma getNonce_signer_irrelevant:
  "getNonce (this\<lparr>client_wallet := (client_wallet this)\<lparr>signTypedData := f\<rparr>\<rparr>) = getNonce this"
  by (simp add: getNonce_def)

subsection \<open>The concrete setting, evaluated\<close>

lemma example_strings2: "toString 500 = ''500''" "toString 123 = ''123''"
  by (simp_all add: toString_def digits_small digits_big digit_chars)

lemma example_BigInts:
  "BigInt ''500'' = Inr 500" "BigInt ''123'' = Inr 123" "BigInt ''450000'' = Inr 450000"
  "BigInt ''10000'' = Inr 10000" "BigInt ''0'' = Inr 0"
  using BigInt_toString [of 500] BigInt_toString [of 123] BigInt_toString [of 450000]
    BigInt_toString [of 10000] BigInt_toString [of 0]
  unfolding example_strings example_strings2 by simp_all

lemma example_amounts:
  "calculateOrderAmounts BUY 100 (45 / 100) ''0.01'' =
     Inr \<lparr>amounts_maker = ''450000'', amounts_taker = ''10000''\<rparr>"
  unfolding calculateOrderAmounts_def costRaw_def sharesRaw_def example_floors example_strings
  by simp

lemma example_salt: "toString (generateSalt example_world) = ''500''"
proof -
  have "generateSalt example_world = 500"
    by code_simp
  then show ?thesis by (simp only: example_strings2)
qed

lemma example_unsignedOrder:
  "unsignedOrder example_world example_requests example_params
     \<lparr>amounts_maker = ''450000'', amounts_taker = ''10000''\<rparr> 0 0 = example_order"
  unfolding unsignedOrder_def Let_def example_salt example_strings
  by (simp add: example_requests_def example_wallet_def example_params_def example_order_def
      example_strings)

lemma example_orderMessage:
  "orderMessage example_order =
     Inr [(''salt'', Big 500),
          (''signer'', Str ''0x00000000000000000000000000000000000000aa''),
          (''maker'', Str ''0x00000000000000000000000000000000000000aa''),
          (''taker'', Str zeroAddress),
          (''tokenId'', Big 123),
          (''nonce'', Big 0),
          (''feeRateBps'', Big 0),
          (''expiration'', Big 0),
          (''side'', Num 0),
          (''signatureType'', Num 0),
          (''makerAmount'', Big 450000),
          (''takerAmount'', Big 10000)]"
  by (simp add: orderMessage_def example_order_def example_BigInts bind_result_Inr
      orderSideToNumber_def)

lemma example_orderTypedData:
  "orderTypedData example_world example_requests example_order = Inr example_typedData"
  unfolding orderTypedData_def Let_def example_orderMessage bind_result_Inr
  by (simp add: example_requests_def example_wallet_def example_world_def
      getContractForChain_def example_typedData_def)

lemma example_signOrder:
  "signOrder example_world example_requests example_order = Inr ''0xsigned''"
  unfolding signOrder_def example_orderTypedData bind_result_Inr
  by (simp add: example_requests_def example_wallet_def)

lemma example_reads:
  "getTickSize (market example_requests) (p_tokenId example_params) = Inr ''0.01''"
  "getFeeRateBps (market example_requests) (p_tokenId example_params) = Inr 0"
  "getNonce example_requests = Inr 0"
  by (simp_all add: example_requests_def example_wallet_def getNonce_def)

lemma example_createOrder:
  "createOrder example_world example_requests example_params =
     Inr (Order.extend example_order (SignedOrder.fields ''0xsigned''))"
proof -
  have p: "p_side example_params = BUY" "p_size example_params = 100"
    "p_price example_params = 45 / 100"
    by (simp_all add: example_params_def)
  show ?thesis
    unfolding createOrder_def example_reads Promise_all3.simps bind_result_Inr prod.case p
      example_amounts Let_def example_unsignedOrder example_signOrder ..
qed

lemma example_isUint:
  "isUint (salt example_order)" "isUint (tokenId example_order)"
  "isUint (makerAmount example_order)" "isUint (takerAmount example_order)"
  "isUint (expiration example_order)" "isUint (nonce example_order)"
  "isUint (feeRateBps example_order)"
  by (simp_all add: example_order_def isUint_def isDecimalDigit_def)

lemma example_no_tick_reads:
  "getTickSize (market example_requests_no_tick) (p_tokenId example_params) =
     Inl (Rejected ''tick size unavailable'')"
  "getFeeRateBps (market example_requests_no_tick) (p_tokenId example_params) = Inr 0"
  "getNonce example_requests_no_tick = Inr 0"
  by (simp_all add: example_requests_no_tick_def example_wallet_def getNonce_def)

lemma example_long: "toString 1700000000 = ''1700000000''"
  by (simp add: toString_def digits_small digits_big digit_chars)

lemma example_nonce_account:
  "account_getNonce (account (client_wallet example_requests)) = None"
  "account_getNonce (account (client_wallet example_requests_nonce)) = Some (Inr 7)"
  by (simp_all add: example_requests_def example_wallet_def example_requests_nonce_def)

lemma example_unsignedOrder_taker:
  "unsignedOrder example_world example_requests (example_params\<lparr>p_taker := t\<rparr>)
     \<lparr>amounts_maker = ''450000'', amounts_taker = ''10000''\<rparr> 0 0 =
   example_order\<lparr>taker := if t = ''public'' then zeroAddress else t\<rparr>"
  unfolding unsignedOrder_def Let_def example_salt
  by (simp add: example_requests_def example_wallet_def example_params_def example_order_def
      example_strings)

lemma example_signOrder_taker:
  "signOrder example_world example_requests (example_order\<lparr>taker := t\<rparr>) = Inr ''0xsigned''"
proof -
  have "\<exists>msg. orderMessage (example_order\<lparr>taker := t\<rparr>) = Inr msg"
    unfolding orderMessage_eq_Inr by (simp add: example_order_def example_BigInts)
  then obtain td where
    "orderTypedData example_world example_requests (example_order\<lparr>taker := t\<rparr>) = Inr td"
    using orderTypedData_built by blast
  then show ?thesis
    by (simp add: signOrder_def bind_result_Inr example_requests_def example_wallet_def)
qed

lemma example_createOrder_taker:
  "createOrder example_world example_requests (example_params\<lparr>p_taker := t\<rparr>) =
     Inr (Order.extend (example_order\<lparr>taker := if t = ''public'' then zeroAddress else t\<rparr>)
            (SignedOrder.fields ''0xsigned''))"
proof -
  have p: "p_side (example_params\<lparr>p_taker := t\<rparr>) = BUY"
    "p_size (example_params\<lparr>p_taker := t\<rparr>) = 100"
    "p_price (example_params\<lparr>p_taker := t\<rparr>) = 45 / 100"
    "p_tokenId (example_params\<lparr>p_taker := t\<rparr>) = p_tokenId example_params"
    by (simp_all add: example_params_def)
  show ?thesis
    unfolding createOrder_def p example_reads Promise_all3.simps bind_result_Inr prod.case
      example_amounts Let_def example_unsignedOrder_taker example_signOrder_taker ..
qed

lemma example_amounts_negative:
  "calculateOrderAmounts BUY 100 (- 45 / 100) ''0.01'' =
     Inr \<lparr>amounts_maker = ''-450000'', amounts_taker = ''10000''\<rparr>"
  unfolding calculateOrderAmounts_def costRaw_def sharesRaw_def example_floors example_strings
  by simp

lemma example_unsignedOrder_negative:
  "unsignedOrder example_world example_requests (example_params\<lparr>p_price := - 45 / 100\<rparr>)
     \<lparr>amounts_maker = ''-450000'', amounts_taker = ''10000''\<rparr> 0 0 = example_negative_order"
  unfolding unsignedOrder_def Let_def example_salt
  by (simp add: example_requests_def example_wallet_def example_params_def
      example_negative_order_def example_strings)

lemma example_BigInt_negative: "BigInt ''-450000'' = Inr (- 450000)"
  using BigInt_toString [of "- 450000"] unfolding example_strings .

lemma example_orderTypedData_negative:
  "orderTypedData example_world example_requests example_negative_order =
     Inr example_negative_typedData"
  by (simp add: orderTypedData_def Let_def orderMessage_def example_negative_order_def
      example_BigInts example_BigInt_negative bind_result_Inr orderSideToNumber_def
      example_requests_def example_wallet_def example_world_def getContractForChain_def
      example_negative_typedData_def)

lemma example_signOrder_negative:
  "signOrder example_world example_requests example_negative_order = Inr ''0xsigned''"
  unfolding signOrder_def example_orderTypedData_negative bind_result_Inr
  by (simp add: example_requests_def example_wallet_def)

lemma example_createOrder_negative:
  "createOrder example_world example_requests (example_params\<lparr>p_price := - 45 / 100\<rparr>) =
     Inr (Order.extend example_negative_order (SignedOrder.fields ''0xsigned''))"
proof -
  have p: "p_side (example_params\<lparr>p_price := - 45 / 100\<rparr>) = BUY"
    "p_size (example_params\<lparr>p_price := - 45 / 100\<rparr>) = 100"
    "p_price (example_params\<lparr>p_price := - 45 / 100\<rparr>) = - 45 / 100"
    "p_tokenId (example_params\<lparr>p_price := - 45 / 100\<rparr>) = p_tokenId example_params"
    by (simp_all add: example_params_def)
  show ?thesis
    unfolding createOrder_def p example_reads Promise_all3.simps bind_result_Inr prod.case
      example_amounts_negative Let_def example_unsignedOrder_negative
      example_signOrder_negative ..
qed

lemma example_nonce_accounts:
  "account_getNonce (account (client_wallet example_requests_nonce_rejects)) =
     Some (Inl (Rejected ''nonce unavailable''))"
  "account_getNonce (account (client_wallet example_requests_nonce_negative)) =
     Some (Inr (- 5))"
  by (simp_all add: example_requests_nonce_rejects_def example_requests_nonce_negative_def)

lemma example_nonce_rejects_reads:
  "getTickSize (market example_requests_nonce_rejects) (p_tokenId example_params) = Inr ''0.01''"
  "getFeeRateBps (market example_requests_nonce_rejects) (p_tokenId example_params) = Inr 0"
  "getNonce example_requests_nonce_rejects = Inl (Rejected ''nonce unavailable'')"
  by (simp_all add: example_requests_nonce_rejects_def getNonce_def)

section \<open>The amount calculator\<close>

text \<open>
  Claim C1. For \<open>BUY\<close> the maker amount is the raw cost and the taker amount the raw
  shares; for \<open>SELL\<close> the two are exchanged. For price \<open>0.45\<close>, size \<open>100\<close> and tick size
  \<^verbatim>\<open>"0.01"\<close>: two tick decimals, four amount decimals, rounded price \<open>0.45\<close>, shares
  \<open>100\<close>, cost \<open>45\<close>, raw shares \<^verbatim>\<open>"10000"\<close>, raw cost \<^verbatim>\<open>"450000"\<close>, and \<open>BUY\<close> gives
  maker \<^verbatim>\<open>"450000"\<close> and taker \<^verbatim>\<open>"10000"\<close>.
\<close>

theorem calculateOrderAmounts_sides:
  "calculateOrderAmounts BUY sz price tickSize =
     Inr \<lparr>amounts_maker = costRaw sz price tickSize, amounts_taker = sharesRaw sz\<rparr> \<and>
   calculateOrderAmounts SELL sz price tickSize =
     Inr \<lparr>amounts_maker = sharesRaw sz, amounts_taker = costRaw sz price tickSize\<rparr> \<and>
   tickDecimals ''0.01'' = 2 \<and> amountDecimals ''0.01'' = 4 \<and>
   roundedPrice (45 / 100) ''0.01'' = 45 / 100 \<and> shares 100 = 100 \<and>
   cost 100 (45 / 100) ''0.01'' = 45 \<and>
   sharesRaw 100 = ''10000'' \<and> costRaw 100 (45 / 100) ''0.01'' = ''450000'' \<and>
   calculateOrderAmounts BUY 100 (45 / 100) ''0.01'' =
     Inr \<lparr>amounts_maker = ''450000'', amounts_taker = ''10000''\<rparr>"
proof -
  have general:
    "calculateOrderAmounts BUY sz price tickSize =
       Inr \<lparr>amounts_maker = costRaw sz price tickSize, amounts_taker = sharesRaw sz\<rparr>"
    "calculateOrderAmounts SELL sz price tickSize =
       Inr \<lparr>amounts_maker = sharesRaw sz, amounts_taker = costRaw sz price tickSize\<rparr>"
    for sz price tickSize
    by (simp_all add: calculateOrderAmounts_def)
  have raw: "sharesRaw 100 = ''10000''" "costRaw 100 (45 / 100) ''0.01'' = ''450000''"
    unfolding sharesRaw_def costRaw_def example_floors by (rule example_strings)+
  show ?thesis
    unfolding general raw by (intro conjI refl example_tickDecimals example_rounded)
qed

text \<open>
  Claim C3 says that the calculator fails on a non-positive price, a non-positive size
  or a tick size that is no decimal string. The method validates nothing. With price
  \<open>-0.45\<close> it returns the maker amount \<^verbatim>\<open>"-450000"\<close>; with size \<open>-1\<close> it returns the
  taker amount \<^verbatim>\<open>"-100"\<close>; with tick size \<^verbatim>\<open>"abc"\<close> it takes zero tick decimals and
  returns the maker amount \<^verbatim>\<open>"0"\<close>.
\<close>

theorem calculateOrderAmounts_invalid_input_returns:
  "calculateOrderAmounts BUY 100 (- 45 / 100) ''0.01'' =
     Inr \<lparr>amounts_maker = ''-450000'', amounts_taker = ''10000''\<rparr> \<and>
   calculateOrderAmounts BUY (- 1) (45 / 100) ''0.01'' =
     Inr \<lparr>amounts_maker = ''-4500'', amounts_taker = ''-100''\<rparr> \<and>
   calculateOrderAmounts BUY 100 (45 / 100) ''abc'' =
     Inr \<lparr>amounts_maker = ''0'', amounts_taker = ''10000''\<rparr>"
  unfolding calculateOrderAmounts_def costRaw_def sharesRaw_def example_floors example_strings
  by simp

text \<open>
  Claim C3 as amended: the calculator never fails. For every side, size, price and tick
  size, valid or not, it returns the decimal strings of the floor of the cost and of the
  floor of the shares, maker and taker chosen by the side. A non-positive size gives
  non-positive raw shares; a non-positive price with a non-negative size gives a
  non-positive raw cost; a tick size without a dot gives zero tick decimals.
\<close>

theorem calculateOrderAmounts_never_fails:
  "calculateOrderAmounts sd sz price tickSize =
     Inr \<lparr>amounts_maker =
            toString (if sd = BUY then costFloor sz price tickSize else sharesFloor sz),
          amounts_taker =
            toString (if sd = BUY then sharesFloor sz else costFloor sz price tickSize)\<rparr> \<and>
   (sz \<le> 0 \<longrightarrow> sharesFloor sz \<le> 0) \<and>
   (price \<le> 0 \<and> 0 \<le> sz \<longrightarrow> costFloor sz price tickSize \<le> 0) \<and>
   (CHR ''.'' \<notin> set tickSize \<longrightarrow> tickDecimals tickSize = 0)"
proof (intro conjI impI)
  show "calculateOrderAmounts sd sz price tickSize =
     Inr \<lparr>amounts_maker =
            toString (if sd = BUY then costFloor sz price tickSize else sharesFloor sz),
          amounts_taker =
            toString (if sd = BUY then sharesFloor sz else costFloor sz price tickSize)\<rparr>"
    by (cases sd) (simp_all add: calculateOrderAmounts_def costRaw_def sharesRaw_def)
next
  assume "sz \<le> 0"
  then show "sharesFloor sz \<le> 0" by (rule sharesFloor_nonpos)
next
  assume "price \<le> 0 \<and> 0 \<le> sz"
  then show "costFloor sz price tickSize \<le> 0" by (simp add: costFloor_nonpos)
next
  assume "CHR ''.'' \<notin> set tickSize"
  then show "tickDecimals tickSize = 0" by (rule tickDecimals_no_dot)
qed

text \<open>
  The amended theorem of C3 at price \<open>-0.45\<close>, size \<open>100\<close> and tick size \<^verbatim>\<open>"abc"\<close>, and
  at size \<open>-1\<close>.
\<close>

theorem calculateOrderAmounts_never_fails_witness:
  "(- 45 / 100 :: rat) \<le> 0 \<and> (0::rat) \<le> 100 \<and> CHR ''.'' \<notin> set ''abc'' \<and>
   calculateOrderAmounts SELL 100 (- 45 / 100) ''abc'' =
     Inr \<lparr>amounts_maker = toString (sharesFloor 100),
          amounts_taker = toString (costFloor 100 (- 45 / 100) ''abc'')\<rparr> \<and>
   costFloor 100 (- 45 / 100) ''abc'' \<le> 0 \<and>
   tickDecimals ''abc'' = 0 \<and>
   (- 1 :: rat) \<le> 0 \<and> sharesFloor (- 1) \<le> 0"
proof -
  have h: "(- 45 / 100 :: rat) \<le> 0" "(0::rat) \<le> 100" "CHR ''.'' \<notin> set ''abc''"
    "(- 1 :: rat) \<le> 0"
    by simp_all
  note first = calculateOrderAmounts_never_fails [of SELL 100 "- 45 / 100" "''abc''"]
  note second = calculateOrderAmounts_never_fails [of BUY "- 1" "45 / 100" "''0.01''"]
  from first h have a: "calculateOrderAmounts SELL 100 (- 45 / 100) ''abc'' =
     Inr \<lparr>amounts_maker = toString (sharesFloor 100),
          amounts_taker = toString (costFloor 100 (- 45 / 100) ''abc'')\<rparr>"
    and b: "costFloor 100 (- 45 / 100) ''abc'' \<le> 0" and c: "tickDecimals ''abc'' = 0"
    by simp_all
  from second h have d: "sharesFloor (- 1) \<le> 0" by blast
  show ?thesis
    by (intro conjI h a b c d)
qed

section \<open>The order message handed to the signer\<close>

text \<open>
  Claim C4 says that every amount and id field reaches the signer as an unsigned integer.
  \<^verbatim>\<open>signOrder\<close> applies \<^verbatim>\<open>BigInt\<close> to the order's strings and checks nothing. For
  the price \<open>-0.45\<close>, \<^verbatim>\<open>createOrder\<close> builds and signs the order whose
  \<open>makerAmount\<close> is \<^verbatim>\<open>"-450000"\<close>, and the message handed to the signer holds the
  negative integer \<open>-450000\<close> under the type tag \<^verbatim>\<open>uint256\<close>.
\<close>

theorem signOrder_negative_amount:
  "createOrder example_world example_requests (example_params\<lparr>p_price := - 45 / 100\<rparr>) =
     Inr (Order.extend example_negative_order (SignedOrder.fields ''0xsigned'')) \<and>
   makerAmount example_negative_order = ''-450000'' \<and>
   orderTypedData example_world example_requests example_negative_order =
     Inr example_negative_typedData \<and>
   map_of (message example_negative_typedData) ''makerAmount'' = Some (Big (- 450000)) \<and>
   map_of (types example_negative_typedData) ''Order'' =
     Some [(''salt'', ''uint256''),
           (''maker'', ''address''),
           (''signer'', ''address''),
           (''taker'', ''address''),
           (''tokenId'', ''uint256''),
           (''makerAmount'', ''uint256''),
           (''takerAmount'', ''uint256''),
           (''expiration'', ''uint256''),
           (''nonce'', ''uint256''),
           (''feeRateBps'', ''uint256''),
           (''side'', ''uint8''),
           (''signatureType'', ''uint8'')] \<and>
   signOrder example_world example_requests example_negative_order =
     signTypedData (client_wallet example_requests) example_negative_typedData"
proof -
  have amount: "makerAmount example_negative_order = ''-450000''"
    by (simp add: example_negative_order_def)
  have passed: "map_of (message example_negative_typedData) ''makerAmount'' =
      Some (Big (- 450000))"
    by (simp add: example_negative_typedData_def)
  have schema: "map_of (types example_negative_typedData) ''Order'' =
      map_of orderTypes ''Order''"
    by (simp add: example_negative_typedData_def)
  show ?thesis
    unfolding schema orderTypes_Order
    by (intro conjI example_createOrder_negative amount example_orderTypedData_negative
        passed refl signOrder_typed_data [OF example_orderTypedData_negative])
qed

text \<open>
  Claim C4 as amended. Whenever \<^verbatim>\<open>signOrder\<close> reaches the signer, the message it passes
  holds \<open>side\<close> and \<open>signatureType\<close> as their integer codes (\<open>BUY\<close> 0, \<open>SELL\<close> 1;
  \<open>eoa\<close> 0, \<open>poly-proxy\<close> 1, \<open>poly-gnosis-safe\<close> 2), and holds \<open>salt\<close>, \<open>tokenId\<close>,
  \<open>makerAmount\<close>, \<open>takerAmount\<close>, \<open>expiration\<close>, \<open>nonce\<close> and \<open>feeRateBps\<close> as the
  integers that \<^verbatim>\<open>BigInt\<close> reads from the order's strings, not as strings; such an
  integer is non-negative when the order's string is an unsigned decimal string. The type
  schema declares the seven fields \<^verbatim>\<open>uint256\<close> and the two codes \<^verbatim>\<open>uint8\<close>.
\<close>

theorem signOrder_message_encoding:
  assumes "orderTypedData w this order = Inr td"
  shows "signOrder w this order = signTypedData (client_wallet this) td \<and>
         map_of (message td) ''side'' = Some (Num (orderSideToNumber (side order))) \<and>
         map_of (message td) ''signatureType'' =
           Some (Num (signatureTypeToNumber (signatureType order))) \<and>
         orderSideToNumber BUY = 0 \<and> orderSideToNumber SELL = 1 \<and>
         signatureTypeToNumber Eoa = 0 \<and> signatureTypeToNumber PolyProxy = 1 \<and>
         signatureTypeToNumber PolyGnosisSafe = 2 \<and>
         (\<exists>n. BigInt (salt order) = Inr n \<and> map_of (message td) ''salt'' = Some (Big n) \<and>
              (isUint (salt order) \<longrightarrow> 0 \<le> n)) \<and>
         (\<exists>n. BigInt (tokenId order) = Inr n \<and>
              map_of (message td) ''tokenId'' = Some (Big n) \<and>
              (isUint (tokenId order) \<longrightarrow> 0 \<le> n)) \<and>
         (\<exists>n. BigInt (makerAmount order) = Inr n \<and>
              map_of (message td) ''makerAmount'' = Some (Big n) \<and>
              (isUint (makerAmount order) \<longrightarrow> 0 \<le> n)) \<and>
         (\<exists>n. BigInt (takerAmount order) = Inr n \<and>
              map_of (message td) ''takerAmount'' = Some (Big n) \<and>
              (isUint (takerAmount order) \<longrightarrow> 0 \<le> n)) \<and>
         (\<exists>n. BigInt (expiration order) = Inr n \<and>
              map_of (message td) ''expiration'' = Some (Big n) \<and>
              (isUint (expiration order) \<longrightarrow> 0 \<le> n)) \<and>
         (\<exists>n. BigInt (nonce order) = Inr n \<and> map_of (message td) ''nonce'' = Some (Big n) \<and>
              (isUint (nonce order) \<longrightarrow> 0 \<le> n)) \<and>
         (\<exists>n. BigInt (feeRateBps order) = Inr n \<and>
              map_of (message td) ''feeRateBps'' = Some (Big n) \<and>
              (isUint (feeRateBps order) \<longrightarrow> 0 \<le> n)) \<and>
         map_of (types td) ''Order'' =
           Some [(''salt'', ''uint256''),
                 (''maker'', ''address''),
                 (''signer'', ''address''),
                 (''taker'', ''address''),
                 (''tokenId'', ''uint256''),
                 (''makerAmount'', ''uint256''),
                 (''takerAmount'', ''uint256''),
                 (''expiration'', ''uint256''),
                 (''nonce'', ''uint256''),
                 (''feeRateBps'', ''uint256''),
                 (''side'', ''uint8''),
                 (''signatureType'', ''uint8'')]"
proof -
  from assms obtain msg where msg: "orderMessage order = Inr msg"
    and td: "message td = msg" "types td = orderTypes"
    by (auto simp: orderTypedData_eq_Inr)
  from msg obtain a b c d e f g where
    parsed: "BigInt (salt order) = Inr a" "BigInt (tokenId order) = Inr b"
      "BigInt (nonce order) = Inr c" "BigInt (feeRateBps order) = Inr d"
      "BigInt (expiration order) = Inr e" "BigInt (makerAmount order) = Inr f"
      "BigInt (takerAmount order) = Inr g"
    and m: "msg = [(''salt'', Big a),
               (''signer'', Str (signer order)),
               (''maker'', Str (maker order)),
               (''taker'', Str (taker order)),
               (''tokenId'', Big b),
               (''nonce'', Big c),
               (''feeRateBps'', Big d),
               (''expiration'', Big e),
               (''side'', Num (orderSideToNumber (side order))),
               (''signatureType'', Num (signatureTypeToNumber (signatureType order))),
               (''makerAmount'', Big f),
               (''takerAmount'', Big g)]"
    unfolding orderMessage_eq_Inr by blast
  have codes: "orderSideToNumber BUY = 0" "orderSideToNumber SELL = 1"
    by (simp_all add: orderSideToNumber_def)
  have lookups:
    "map_of (message td) ''side'' = Some (Num (orderSideToNumber (side order)))"
    "map_of (message td) ''signatureType'' =
       Some (Num (signatureTypeToNumber (signatureType order)))"
    "map_of (message td) ''salt'' = Some (Big a)"
    "map_of (message td) ''tokenId'' = Some (Big b)"
    "map_of (message td) ''nonce'' = Some (Big c)"
    "map_of (message td) ''feeRateBps'' = Some (Big d)"
    "map_of (message td) ''expiration'' = Some (Big e)"
    "map_of (message td) ''makerAmount'' = Some (Big f)"
    "map_of (message td) ''takerAmount'' = Some (Big g)"
    by (simp_all add: td m)
  have schema: "map_of (types td) ''Order'' = map_of orderTypes ''Order''"
    by (simp add: td)
  show ?thesis
    using parsed lookups codes BigInt_uint_nonneg signOrder_typed_data [OF assms]
    unfolding schema orderTypes_Order
    by (intro conjI exI) (simp_all, blast+)
qed

text \<open>
  The amended theorem of C4 at the order of the concrete setting: its seven strings are unsigned
  decimal strings, and the message holds the integers they denote and the codes \<open>0\<close>
  and \<open>0\<close> of \<open>BUY\<close> and \<open>eoa\<close>.
\<close>

theorem signOrder_message_encoding_witness:
  "orderTypedData example_world example_requests example_order = Inr example_typedData \<and>
   (isUint (salt example_order) \<and> isUint (tokenId example_order) \<and>
    isUint (makerAmount example_order) \<and> isUint (takerAmount example_order) \<and>
    isUint (expiration example_order) \<and> isUint (nonce example_order) \<and>
    isUint (feeRateBps example_order)) \<and>
   map_of (message example_typedData) ''side'' = Some (Num 0) \<and>
   map_of (message example_typedData) ''signatureType'' = Some (Num 0) \<and>
   map_of (message example_typedData) ''salt'' = Some (Big 500) \<and>
   map_of (message example_typedData) ''tokenId'' = Some (Big 123) \<and>
   map_of (message example_typedData) ''makerAmount'' = Some (Big 450000) \<and>
   map_of (message example_typedData) ''takerAmount'' = Some (Big 10000) \<and>
   map_of (message example_typedData) ''expiration'' = Some (Big 0) \<and>
   map_of (message example_typedData) ''nonce'' = Some (Big 0) \<and>
   map_of (message example_typedData) ''feeRateBps'' = Some (Big 0) \<and>
   signOrder example_world example_requests example_order =
     signTypedData (client_wallet example_requests) example_typedData"
proof -
  note built = example_orderTypedData
  note enc = signOrder_message_encoding [OF built]
  have side: "orderSideToNumber (side example_order) = 0"
    and sigType: "signatureTypeToNumber (signatureType example_order) = 0"
    by (simp_all add: example_order_def orderSideToNumber_def)
  have vals: "BigInt (salt example_order) = Inr 500" "BigInt (tokenId example_order) = Inr 123"
    "BigInt (makerAmount example_order) = Inr 450000"
    "BigInt (takerAmount example_order) = Inr 10000"
    "BigInt (expiration example_order) = Inr 0" "BigInt (nonce example_order) = Inr 0"
    "BigInt (feeRateBps example_order) = Inr 0"
    by (simp_all add: example_order_def example_BigInts)
  from enc show ?thesis
    unfolding side sigType vals
    by (intro conjI built example_isUint) auto
qed

text \<open>
  Claim C5. In the typed data that \<^verbatim>\<open>signOrder\<close> hands to the signer, the domain's
  \<open>verifyingContract\<close> is the \<open>negRiskExchange\<close> address of the registry entry that
  \<^verbatim>\<open>getContractForChain\<close> selects for the wallet's chain id: the Polygon entry for
  chain id 137 and the Polygon Amoy entry for every other chain id.
\<close>

theorem signOrder_verifyingContract:
  assumes "orderTypedData w this order = Inr td"
  shows "map_of (domain td) ''verifyingContract'' =
           Some (Str (negRiskExchange
             (if chain_id (client_wallet this) = 137 then POLYGON_CONTRACTS w
              else POLYGON_AMOY_CONTRACTS w))) \<and>
         map_of (domain td) ''chainId'' = Some (Big (chain_id (client_wallet this))) \<and>
         getContractForChain w 137 = POLYGON_CONTRACTS w \<and>
         getContractForChain w chainId =
           (if chainId = 137 then POLYGON_CONTRACTS w else POLYGON_AMOY_CONTRACTS w) \<and>
         signOrder w this order = signTypedData (client_wallet this) td"
  using assms signOrder_typed_data [OF assms]
  by (auto simp: orderTypedData_eq_Inr getContractForChain_def)

text \<open>
  The theorem of C5 in the concrete setting, on chain 137 (the Polygon entry), and on
  chain 80002 (the Polygon Amoy entry).
\<close>

theorem signOrder_verifyingContract_witness:
  "orderTypedData example_world example_requests example_order = Inr example_typedData \<and>
   chain_id (client_wallet example_requests) = 137 \<and>
   map_of (domain example_typedData) ''verifyingContract'' =
     Some (Str (negRiskExchange (POLYGON_CONTRACTS example_world))) \<and>
   orderTypedData example_world
       (example_requests\<lparr>client_wallet := example_wallet\<lparr>chain_id := 80002\<rparr>\<rparr>) example_order =
     Inr (example_typedData
           \<lparr>domain := [(''name'', Str ''Polymarket CTF Exchange''),
                       (''version'', Str ''1''),
                       (''chainId'', Big 80002),
                       (''verifyingContract'',
                          Str (negRiskExchange (POLYGON_AMOY_CONTRACTS example_world)))]\<rparr>)"
proof -
  note built = example_orderTypedData
  have chain: "chain_id (client_wallet example_requests) = 137"
    by (simp add: example_requests_def example_wallet_def)
  have mainnet: "map_of (domain example_typedData) ''verifyingContract'' =
      Some (Str (negRiskExchange (POLYGON_CONTRACTS example_world)))"
    using signOrder_verifyingContract [OF built] by (simp add: chain)
  let ?amoy = "example_requests\<lparr>client_wallet := example_wallet\<lparr>chain_id := 80002\<rparr>\<rparr>"
  obtain td where td: "orderTypedData example_world ?amoy example_order = Inr td"
    using orderTypedData_built [OF example_orderMessage] by blast
  have "map_of (domain td) ''verifyingContract'' =
      Some (Str (negRiskExchange (POLYGON_AMOY_CONTRACTS example_world)))"
    using signOrder_verifyingContract [OF td] by simp
  moreover from td have "td = example_typedData
           \<lparr>domain := [(''name'', Str ''Polymarket CTF Exchange''),
                       (''version'', Str ''1''),
                       (''chainId'', Big 80002),
                       (''verifyingContract'',
                          Str (negRiskExchange
                                 (getContractForChain example_world 80002)))]\<rparr>"
    by (simp add: orderTypedData_eq_Inr example_orderMessage example_typedData_def)
  ultimately have amoy: "orderTypedData example_world ?amoy example_order =
     Inr (example_typedData
           \<lparr>domain := [(''name'', Str ''Polymarket CTF Exchange''),
                       (''version'', Str ''1''),
                       (''chainId'', Big 80002),
                       (''verifyingContract'',
                          Str (negRiskExchange (POLYGON_AMOY_CONTRACTS example_world)))]\<rparr>)"
    using td by (simp add: getContractForChain_def)
  show ?thesis
    by (intro conjI built chain mainnet amoy)
qed

section \<open>\<^verbatim>\<open>createOrder\<close>\<close>

text \<open>
  Claim C6. When one of the three reads (tick size, fee rate, nonce) rejects,
  \<^verbatim>\<open>createOrder\<close> rejects with the reason of one of the rejected reads, it returns no
  order, and the signer has no part in the outcome. When \<^verbatim>\<open>createOrder\<close> returns a
  signed order, all three reads have resolved, and the amounts, the fee rate and the nonce
  of the order are computed from the values they resolved with.
\<close>

theorem createOrder_all_or_nothing:
  "(isl (getTickSize (market this) (p_tokenId params)) \<or>
    isl (getFeeRateBps (market this) (p_tokenId params)) \<or>
    isl (getNonce this) \<longrightarrow>
      (\<exists>e. createOrder w this params = Inl e \<and>
           (getTickSize (market this) (p_tokenId params) = Inl e \<or>
            getFeeRateBps (market this) (p_tokenId params) = Inl e \<or>
            getNonce this = Inl e) \<and>
           (\<forall>f. createOrder w
                  (this\<lparr>client_wallet := (client_wallet this)\<lparr>signTypedData := f\<rparr>\<rparr>)
                  params = Inl e))) \<and>
   (\<forall>so. createOrder w this params = Inr so \<longrightarrow>
      (\<exists>tickSize feeRateBps' nonce'.
         getTickSize (market this) (p_tokenId params) = Inr tickSize \<and>
         getFeeRateBps (market this) (p_tokenId params) = Inr feeRateBps' \<and>
         getNonce this = Inr nonce' \<and>
         calculateOrderAmounts (p_side params) (p_size params) (p_price params) tickSize =
           Inr \<lparr>amounts_maker = makerAmount so, amounts_taker = takerAmount so\<rparr> \<and>
         feeRateBps so = toString feeRateBps' \<and>
         nonce so = toString nonce'))"
proof (intro conjI impI allI)
  let ?tick = "getTickSize (market this) (p_tokenId params)"
  let ?fee = "getFeeRateBps (market this) (p_tokenId params)"
  assume "isl ?tick \<or> isl ?fee \<or> isl (getNonce this)"
  then obtain e where all: "Promise_all3 (settledAt w) ?tick ?fee (getNonce this) = Inl e"
    and e: "?tick = Inl e \<or> ?fee = Inl e \<or> getNonce this = Inl e"
    using Promise_all3_rejects by blast
  have "createOrder w this params = Inl e"
    by (simp add: createOrder_def all bind_result_Inl)
  moreover have "createOrder w
      (this\<lparr>client_wallet := (client_wallet this)\<lparr>signTypedData := f\<rparr>\<rparr>) params = Inl e" for f
    by (simp add: createOrder_def getNonce_signer_irrelevant all bind_result_Inl)
  ultimately show "\<exists>e. createOrder w this params = Inl e \<and>
           (?tick = Inl e \<or> ?fee = Inl e \<or> getNonce this = Inl e) \<and>
           (\<forall>f. createOrder w
                  (this\<lparr>client_wallet := (client_wallet this)\<lparr>signTypedData := f\<rparr>\<rparr>)
                  params = Inl e)"
    using e by blast
next
  fix so
  assume "createOrder w this params = Inr so"
  then obtain tickSize feeRateBps' nonce' amounts signature' where
    reads: "getTickSize (market this) (p_tokenId params) = Inr tickSize"
      "getFeeRateBps (market this) (p_tokenId params) = Inr feeRateBps'"
      "getNonce this = Inr nonce'"
    and amounts: "calculateOrderAmounts (p_side params) (p_size params) (p_price params)
        tickSize = Inr amounts"
    and so: "so = Order.extend (unsignedOrder w this params amounts feeRateBps' nonce')
        (SignedOrder.fields signature')"
    unfolding createOrder_eq_Inr by blast
  have "makerAmount so = amounts_maker amounts" "takerAmount so = amounts_taker amounts"
    "feeRateBps so = toString feeRateBps'" "nonce so = toString nonce'"
    by (simp_all add: so Order.extend_def unsignedOrder_def Let_def)
  with reads amounts show "\<exists>tickSize feeRateBps' nonce'.
         getTickSize (market this) (p_tokenId params) = Inr tickSize \<and>
         getFeeRateBps (market this) (p_tokenId params) = Inr feeRateBps' \<and>
         getNonce this = Inr nonce' \<and>
         calculateOrderAmounts (p_side params) (p_size params) (p_price params) tickSize =
           Inr \<lparr>amounts_maker = makerAmount so, amounts_taker = takerAmount so\<rparr> \<and>
         feeRateBps so = toString feeRateBps' \<and>
         nonce so = toString nonce'"
    by simp
qed

text \<open>
  The theorem of C6 in the concrete setting: with a tick size lookup that rejects,
  \<^verbatim>\<open>createOrder\<close> rejects with that reason; with three reads that resolve, it returns
  the signed order, whose amounts are those computed from the tick size read.
\<close>

theorem createOrder_all_or_nothing_witness:
  "isl (getTickSize (market example_requests_no_tick) (p_tokenId example_params)) \<and>
   createOrder example_world example_requests_no_tick example_params =
     Inl (Rejected ''tick size unavailable'') \<and>
   createOrder example_world example_requests example_params =
     Inr (Order.extend example_order (SignedOrder.fields ''0xsigned'')) \<and>
   getTickSize (market example_requests) (p_tokenId example_params) = Inr ''0.01'' \<and>
   getFeeRateBps (market example_requests) (p_tokenId example_params) = Inr 0 \<and>
   getNonce example_requests = Inr 0 \<and>
   calculateOrderAmounts (p_side example_params) (p_size example_params)
       (p_price example_params) ''0.01'' =
     Inr \<lparr>amounts_maker =
            makerAmount (Order.extend example_order (SignedOrder.fields ''0xsigned'')),
          amounts_taker =
            takerAmount (Order.extend example_order (SignedOrder.fields ''0xsigned''))\<rparr>"
proof -
  have rejected: "isl (getTickSize (market example_requests_no_tick) (p_tokenId example_params))"
    by (simp add: example_no_tick_reads)
  from createOrder_all_or_nothing [of example_requests_no_tick example_params example_world]
    rejected
  obtain e where "createOrder example_world example_requests_no_tick example_params = Inl e"
    and "getTickSize (market example_requests_no_tick) (p_tokenId example_params) = Inl e \<or>
      getFeeRateBps (market example_requests_no_tick) (p_tokenId example_params) = Inl e \<or>
      getNonce example_requests_no_tick = Inl e"
    by blast
  then have failed: "createOrder example_world example_requests_no_tick example_params =
      Inl (Rejected ''tick size unavailable'')"
    by (simp add: example_no_tick_reads)
  from createOrder_all_or_nothing [of example_requests example_params example_world]
    example_createOrder
  obtain tickSize where "getTickSize (market example_requests) (p_tokenId example_params) =
      Inr tickSize"
    and "calculateOrderAmounts (p_side example_params) (p_size example_params)
        (p_price example_params) tickSize =
      Inr \<lparr>amounts_maker =
             makerAmount (Order.extend example_order (SignedOrder.fields ''0xsigned'')),
           amounts_taker =
             takerAmount (Order.extend example_order (SignedOrder.fields ''0xsigned''))\<rparr>"
    by blast
  then have computed: "calculateOrderAmounts (p_side example_params) (p_size example_params)
        (p_price example_params) ''0.01'' =
      Inr \<lparr>amounts_maker =
             makerAmount (Order.extend example_order (SignedOrder.fields ''0xsigned'')),
           amounts_taker =
             takerAmount (Order.extend example_order (SignedOrder.fields ''0xsigned''))\<rparr>"
    by (simp add: example_reads)
  show ?thesis
    by (intro conjI rejected failed example_createOrder example_reads computed)
qed

text \<open>
  Claim C8 says that the lookup returns the account's nonce as an unsigned integer when
  the account provides a source, and exactly \<open>0\<close> when nonce retrieval is unavailable.
  When the account's \<^verbatim>\<open>getNonce\<close> rejects, the lookup rejects with the same reason, and
  so does \<^verbatim>\<open>createOrder\<close>: no \<open>0\<close> is returned. When it resolves with \<open>-5\<close>, the
  lookup resolves with \<open>-5\<close>.
\<close>

theorem getNonce_rejection_and_negative:
  "account_getNonce (account (client_wallet example_requests_nonce_rejects)) =
     Some (Inl (Rejected ''nonce unavailable'')) \<and>
   getNonce example_requests_nonce_rejects = Inl (Rejected ''nonce unavailable'') \<and>
   createOrder example_world example_requests_nonce_rejects example_params =
     Inl (Rejected ''nonce unavailable'') \<and>
   account_getNonce (account (client_wallet example_requests_nonce_negative)) =
     Some (Inr (- 5)) \<and>
   getNonce example_requests_nonce_negative = Inr (- 5)"
proof -
  have rejected: "createOrder example_world example_requests_nonce_rejects example_params =
      Inl (Rejected ''nonce unavailable'')"
    unfolding createOrder_def example_nonce_rejects_reads Promise_all3.simps bind_result_Inl ..
  have negative: "getNonce example_requests_nonce_negative = Inr (- 5)"
    by (simp add: example_requests_nonce_negative_def getNonce_def)
  show ?thesis
    by (intro conjI example_nonce_accounts example_nonce_rejects_reads(3) rejected negative)
qed

text \<open>
  Claim C8 as amended. \<^verbatim>\<open>getNonce\<close> resolves with \<open>0\<close> when the account has no
  \<^verbatim>\<open>getNonce\<close>, and otherwise settles as the account's \<^verbatim>\<open>getNonce()\<close> does: it
  resolves with the integer that call resolves with, unchanged and unchecked, and it
  rejects when that call rejects. It is the lookup that \<^verbatim>\<open>createOrder\<close> uses: the
  \<open>nonce\<close> of a created order is the decimal string of the value \<^verbatim>\<open>getNonce\<close>
  resolved with.
\<close>

theorem getNonce_source_or_zero:
  "(account_getNonce (account (client_wallet this)) = None \<longrightarrow> getNonce this = Inr 0) \<and>
   (\<forall>outcome. account_getNonce (account (client_wallet this)) = Some outcome \<longrightarrow>
      getNonce this = outcome) \<and>
   (\<forall>so. createOrder w this params = Inr so \<longrightarrow>
      (\<exists>n. getNonce this = Inr n \<and> nonce so = toString n))"
proof (intro conjI allI impI)
  fix so
  assume "createOrder w this params = Inr so"
  then show "\<exists>n. getNonce this = Inr n \<and> nonce so = toString n"
    unfolding createOrder_eq_Inr
    by (auto simp: Order.extend_def unsignedOrder_def Let_def)
qed (simp_all add: getNonce_def)

text \<open>
  The amended theorem of C8 for the account without \<^verbatim>\<open>getNonce\<close> (nonce \<open>0\<close>, also
  in the created order), for the account whose \<^verbatim>\<open>getNonce\<close> resolves with \<open>7\<close>, and
  for the account whose \<^verbatim>\<open>getNonce\<close> rejects.
\<close>

theorem getNonce_source_or_zero_witness:
  "account_getNonce (account (client_wallet example_requests)) = None \<and>
   getNonce example_requests = Inr 0 \<and>
   account_getNonce (account (client_wallet example_requests_nonce)) = Some (Inr 7) \<and>
   getNonce example_requests_nonce = Inr 7 \<and>
   account_getNonce (account (client_wallet example_requests_nonce_rejects)) =
     Some (Inl (Rejected ''nonce unavailable'')) \<and>
   getNonce example_requests_nonce_rejects = Inl (Rejected ''nonce unavailable'') \<and>
   createOrder example_world example_requests example_params =
     Inr (Order.extend example_order (SignedOrder.fields ''0xsigned'')) \<and>
   nonce (Order.extend example_order (SignedOrder.fields ''0xsigned'')) = toString 0"
proof -
  note none = example_nonce_account(1) and some = example_nonce_account(2)
    and fails = example_nonce_accounts(1)
  from getNonce_source_or_zero [of example_requests] none
  have zero: "getNonce example_requests = Inr 0" by blast
  from getNonce_source_or_zero [of example_requests_nonce] some
  have seven: "getNonce example_requests_nonce = Inr 7" by blast
  from getNonce_source_or_zero [of example_requests_nonce_rejects] fails
  have rejected: "getNonce example_requests_nonce_rejects = Inl (Rejected ''nonce unavailable'')"
    by blast
  from getNonce_source_or_zero [of example_requests example_world example_params]
    example_createOrder
  obtain n where "getNonce example_requests = Inr n"
    and "nonce (Order.extend example_order (SignedOrder.fields ''0xsigned'')) = toString n"
    by blast
  with zero
  have used: "nonce (Order.extend example_order (SignedOrder.fields ''0xsigned'')) = toString 0"
    by simp
  show ?thesis
    by (intro conjI none zero some seven fails rejected example_createOrder used)
qed

text \<open>
  Claim C9. Every order that \<^verbatim>\<open>createOrder\<close> returns has signature type \<open>eoa\<close>,
  whatever the parameters, and its signature is the signer's answer to a typed-data
  message whose \<open>signatureType\<close> is the integer \<open>0\<close>.
\<close>

theorem createOrder_signatureType_eoa:
  assumes "createOrder w this params = Inr so"
  shows "signatureType so = Eoa \<and>
         signatureTypeToNumber (signatureType so) = 0 \<and>
         (\<exists>td. orderTypedData w this (Order.truncate so) = Inr td \<and>
               signTypedData (client_wallet this) td = Inr (signature so) \<and>
               map_of (message td) ''signatureType'' = Some (Num 0))"
proof -
  from assms obtain amounts feeRateBps' nonce' signature' where
    signed: "signOrder w this (unsignedOrder w this params amounts feeRateBps' nonce')
        = Inr signature'"
    and so: "so = Order.extend (unsignedOrder w this params amounts feeRateBps' nonce')
        (SignedOrder.fields signature')"
    unfolding createOrder_eq_Inr by blast
  let ?order = "unsignedOrder w this params amounts feeRateBps' nonce'"
  have eoa: "signatureType ?order = Eoa"
    by (simp add: unsignedOrder_def Let_def)
  from signed obtain td where td: "orderTypedData w this ?order = Inr td"
    and sg: "signTypedData (client_wallet this) td = Inr signature'"
    unfolding signOrder_def bind_result_eq_Inr by blast
  from td have "map_of (message td) ''signatureType'' =
      Some (Num (signatureTypeToNumber (signatureType ?order)))"
    by (auto simp: orderTypedData_eq_Inr orderMessage_eq_Inr)
  with eoa have code: "map_of (message td) ''signatureType'' = Some (Num 0)"
    by simp
  have "Order.truncate so = ?order" "signature so = signature'" "signatureType so = Eoa"
    by (simp_all add: so truncate_extend signature_extend extend_fields eoa)
  with td sg code show ?thesis by auto
qed

text \<open>The theorem of C9 at the order created in the concrete setting.\<close>

theorem createOrder_signatureType_eoa_witness:
  "createOrder example_world example_requests example_params =
     Inr (Order.extend example_order (SignedOrder.fields ''0xsigned'')) \<and>
   signatureType (Order.extend example_order (SignedOrder.fields ''0xsigned'')) = Eoa \<and>
   orderTypedData example_world example_requests example_order = Inr example_typedData \<and>
   map_of (message example_typedData) ''signatureType'' = Some (Num 0)"
proof -
  from createOrder_signatureType_eoa [OF example_createOrder]
  have eoa: "signatureType (Order.extend example_order (SignedOrder.fields ''0xsigned'')) = Eoa"
    by blast
  have code: "map_of (message example_typedData) ''signatureType'' = Some (Num 0)"
    by (simp add: example_typedData_def)
  show ?thesis
    by (intro conjI example_createOrder eoa example_orderTypedData code)
qed

text \<open>
  Claim C10 says that the taker of a created order is the zero address exactly when the
  caller passed \<^verbatim>\<open>"public"\<close>. A caller who passes the zero address itself, which is a
  \<^verbatim>\<open>Hex\<close> string and not \<^verbatim>\<open>"public"\<close>, gets the zero address as taker too.
\<close>

theorem createOrder_taker_zero_not_public:
  "createOrder example_world example_requests
     (example_params\<lparr>p_taker := ''0x0000000000000000000000000000000000000000''\<rparr>) =
     Inr (Order.extend example_order (SignedOrder.fields ''0xsigned'')) \<and>
   taker (Order.extend example_order (SignedOrder.fields ''0xsigned'')) = zeroAddress \<and>
   p_taker (example_params\<lparr>p_taker := ''0x0000000000000000000000000000000000000000''\<rparr>)
     \<noteq> ''public''"
proof -
  have same: "example_order\<lparr>taker := zeroAddress\<rparr> = example_order"
    by (simp add: example_order_def)
  have "createOrder example_world example_requests (example_params\<lparr>p_taker := zeroAddress\<rparr>) =
      Inr (Order.extend example_order (SignedOrder.fields ''0xsigned''))"
    unfolding example_createOrder_taker by (simp add: same)
  then show ?thesis
    by (simp add: zeroAddress_def extend_fields example_order_def)
qed

text \<open>
  Claim C10 as amended: the taker of a created order is the zero address when the caller
  passed \<^verbatim>\<open>"public"\<close> and is the caller's taker address unchanged otherwise, so it is
  the zero address exactly when the caller passed \<^verbatim>\<open>"public"\<close> or the zero address;
  maker and signer are the address of the wallet's account.
\<close>

theorem createOrder_parties:
  assumes "createOrder w this params = Inr so"
  shows "taker so = (if p_taker params = ''public'' then zeroAddress else p_taker params) \<and>
         (taker so = zeroAddress \<longleftrightarrow>
            p_taker params = ''public'' \<or> p_taker params = zeroAddress) \<and>
         maker so = address (account (client_wallet this)) \<and>
         signer so = address (account (client_wallet this))"
proof -
  from assms obtain amounts feeRateBps' nonce' signature' where
    so: "so = Order.extend (unsignedOrder w this params amounts feeRateBps' nonce')
        (SignedOrder.fields signature')"
    unfolding createOrder_eq_Inr by blast
  show ?thesis
    by (auto simp: so extend_fields unsignedOrder_def Let_def)
qed

text \<open>
  The theorem of C10 as amended in the concrete setting, with the public taker and with the
  taker \<^verbatim>\<open>0x00000000000000000000000000000000000000bb\<close>.
\<close>

theorem createOrder_parties_witness:
  "createOrder example_world example_requests example_params =
     Inr (Order.extend example_order (SignedOrder.fields ''0xsigned'')) \<and>
   p_taker example_params = ''public'' \<and>
   taker (Order.extend example_order (SignedOrder.fields ''0xsigned'')) = zeroAddress \<and>
   maker (Order.extend example_order (SignedOrder.fields ''0xsigned'')) =
     ''0x00000000000000000000000000000000000000aa'' \<and>
   signer (Order.extend example_order (SignedOrder.fields ''0xsigned'')) =
     ''0x00000000000000000000000000000000000000aa'' \<and>
   createOrder example_world example_requests
     (example_params\<lparr>p_taker := ''0x00000000000000000000000000000000000000bb''\<rparr>) =
     Inr (Order.extend (example_order\<lparr>taker := ''0x00000000000000000000000000000000000000bb''\<rparr>)
            (SignedOrder.fields ''0xsigned'')) \<and>
   taker (Order.extend (example_order\<lparr>taker := ''0x00000000000000000000000000000000000000bb''\<rparr>)
            (SignedOrder.fields ''0xsigned'')) = ''0x00000000000000000000000000000000000000bb''"
proof -
  have public: "p_taker example_params = ''public''"
    by (simp add: example_params_def)
  have addr: "address (account (client_wallet example_requests)) =
      ''0x00000000000000000000000000000000000000aa''"
    by (simp add: example_requests_def example_wallet_def)
  from createOrder_parties [OF example_createOrder] public addr
  have first: "taker (Order.extend example_order (SignedOrder.fields ''0xsigned'')) = zeroAddress"
    "maker (Order.extend example_order (SignedOrder.fields ''0xsigned'')) =
       ''0x00000000000000000000000000000000000000aa''"
    "signer (Order.extend example_order (SignedOrder.fields ''0xsigned'')) =
       ''0x00000000000000000000000000000000000000aa''"
    by simp_all
  have other: "createOrder example_world example_requests
     (example_params\<lparr>p_taker := ''0x00000000000000000000000000000000000000bb''\<rparr>) =
     Inr (Order.extend (example_order\<lparr>taker := ''0x00000000000000000000000000000000000000bb''\<rparr>)
            (SignedOrder.fields ''0xsigned''))"
    unfolding example_createOrder_taker by simp
  from createOrder_parties [OF other]
  have second: "taker (Order.extend
      (example_order\<lparr>taker := ''0x00000000000000000000000000000000000000bb''\<rparr>)
      (SignedOrder.fields ''0xsigned'')) = ''0x00000000000000000000000000000000000000bb''"
    by simp
  show ?thesis
    by (intro conjI example_createOrder public first other second)
qed

section \<open>The attestation message\<close>

text \<open>
  Claim C7. For every wallet, timestamp and nonce, \<^verbatim>\<open>signClobAuth\<close> hands the signer
  the typed data with primary type \<^verbatim>\<open>ClobAuth\<close>, the domain of name
  \<^verbatim>\<open>ClobAuthDomain\<close>, version \<^verbatim>\<open>1\<close> and the wallet's chain id, and the message of the
  account's address, the timestamp as its decimal string (from which the timestamp can be
  read back; \<open>1700000000\<close> becomes \<^verbatim>\<open>"1700000000"\<close>), the nonce as an integer, and the
  fixed attestation sentence.
\<close>

theorem signClobAuth_typed_data:
  "\<exists>td. signClobAuth signer' timestamp nonce' = signTypedData signer' td \<and>
     primaryType td = ''ClobAuth'' \<and>
     domain td =
       [(''name'', Str ''ClobAuthDomain''),
        (''version'', Str ''1''),
        (''chainId'', Num (chain_id signer'))] \<and>
     message td =
       [(''address'', Str (address (account signer'))),
        (''timestamp'', Str (toString timestamp)),
        (''nonce'', Big nonce'),
        (''message'', Str ''This message attests that I control the given wallet'')] \<and>
     types td =
       [(''ClobAuth'',
           [(''address'', ''address''),
            (''timestamp'', ''string''),
            (''nonce'', ''uint256''),
            (''message'', ''string'')])] \<and>
     td = clobAuthTypedData signer' timestamp nonce' \<and>
     BigInt (toString timestamp) = Inr timestamp \<and>
     toString 1700000000 = ''1700000000''"
proof -
  let ?td = "clobAuthTypedData signer' timestamp nonce'"
  have call: "signClobAuth signer' timestamp nonce' = signTypedData signer' ?td"
    by (simp add: signClobAuth_def)
  have parts: "primaryType ?td = ''ClobAuth''"
    "domain ?td =
       [(''name'', Str ''ClobAuthDomain''),
        (''version'', Str ''1''),
        (''chainId'', Num (chain_id signer'))]"
    "message ?td =
       [(''address'', Str (address (account signer'))),
        (''timestamp'', Str (toString timestamp)),
        (''nonce'', Big nonce'),
        (''message'', Str ''This message attests that I control the given wallet'')]"
    "types ?td =
       [(''ClobAuth'',
           [(''address'', ''address''),
            (''timestamp'', ''string''),
            (''nonce'', ''uint256''),
            (''message'', ''string'')])]"
    by (simp_all add: clobAuthTypedData_def)
  from call parts BigInt_toString [of timestamp] example_long show ?thesis
    by (intro exI [of _ ?td] conjI) simp_all
qed

end
